theory Spec2Isabelle
  imports Main
begin

section \<open>Values, strings and numbers\<close>

text \<open>
  The converter reads manifests that were parsed from YAML. A port field holds either an
  integer or a string; an absent key is \<open>None\<close> of the option type. Strings are
  character lists and are read as ASCII text: \<open>str.isdigit\<close> is modelled for the ASCII
  digits only.
\<close>

datatype pval = PInt int | PStr string

definition is_digit_char :: "char \<Rightarrow> bool" where
  "is_digit_char c = (c \<in> set ''0123456789'')"

text \<open>\<open>s.isdigit()\<close>: a non-empty string of digits.\<close>

definition py_isdigit :: "string \<Rightarrow> bool" where
  "py_isdigit s = (s \<noteq> [] \<and> list_all is_digit_char s)"

text \<open>The value of a digit is its position in \<open>0123456789\<close>.\<close>

definition digit_val :: "char \<Rightarrow> nat" where
  "digit_val c = length (takeWhile (\<lambda>d. d \<noteq> c) ''0123456789'')"

definition digit_char :: "nat \<Rightarrow> char" where
  "digit_char d = ''0123456789'' ! d"

text \<open>\<open>int(s)\<close> on a string of digits.\<close>

definition digits_to_nat :: "string \<Rightarrow> nat" where
  "digits_to_nat s = foldl (\<lambda>a c. 10 * a + digit_val c) 0 s"

definition py_int :: "string \<Rightarrow> int" where
  "py_int s = int (digits_to_nat s)"

text \<open>\<open>str(n)\<close> for a natural number and for an integer: decimal, no leading zeros.\<close>

fun show_nat :: "nat \<Rightarrow> string" where
  "show_nat n =
     (if n < 10 then [digit_char n] else show_nat (n div 10) @ [digit_char (n mod 10)])"

declare show_nat.simps [simp del]

definition show_int :: "int \<Rightarrow> string" where
  "show_int i = (if i < 0 then CHR ''-'' # show_nat (nat (- i)) else show_nat (nat i))"

text \<open>\<open>str(v)\<close> as an f-string formats a port value.\<close>

fun show_pval :: "pval \<Rightarrow> string" where
  "show_pval (PInt i) = show_int i"
| "show_pval (PStr s) = s"

text \<open>Truthiness of \<open>ep.get("port", "")\<close>: an absent key, \<open>""\<close> and \<open>0\<close> are falsy.\<close>

fun port_truthy :: "pval option \<Rightarrow> bool" where
  "port_truthy None = False"
| "port_truthy (Some (PInt i)) = (i \<noteq> 0)"
| "port_truthy (Some (PStr s)) = (s \<noteq> [])"

text \<open>\<open>sub in s\<close> on strings.\<close>

fun py_in :: "string \<Rightarrow> string \<Rightarrow> bool" where
  "py_in sub [] = (sub = [])"
| "py_in sub (c # cs) = (take (length sub) (c # cs) = sub \<or> py_in sub cs)"

text \<open>\<open>s.lstrip('v')\<close> removes every leading \<open>v\<close>.\<close>

definition lstrip_v :: "string \<Rightarrow> string" where
  "lstrip_v s = dropWhile (\<lambda>c. c = CHR ''v'') s"

text \<open>\<open>x or d\<close> on strings.\<close>

definition str_or :: "string \<Rightarrow> string \<Rightarrow> string" where
  "str_or x d = (if x \<noteq> [] then x else d)"

text \<open>\<open>d.get(k, default)\<close> for an optional string field.\<close>

definition get_or :: "'a option \<Rightarrow> 'a \<Rightarrow> 'a" where
  "get_or x d = (case x of None \<Rightarrow> d | Some v \<Rightarrow> v)"

section \<open>Data model\<close>

text \<open>
  Dictionaries whose iteration order the code depends on (\<open>matchLabels\<close>, the service
  registry, the alias table) are association lists in insertion order; a well-formed
  dictionary has distinct keys.
\<close>

record service_port =
  sp_name :: "string option"
  sp_port :: "pval option"
  sp_targetPort :: "pval option"

record svc_info =
  svc_name :: string
  svc_namespace :: string
  svc_selector :: "(string \<times> string) list"
  svc_type :: string
  svc_ports :: "service_port list"

text \<open>
  An endpoint of a ServiceMonitor. The nested \<open>tlsConfig.ca.configMap.name\<close>,
  \<open>tlsConfig.ca.configMap.key\<close> and \<open>tlsConfig.serverName\<close> are read through chains of
  \<open>.get(..., {})\<close>, so a key missing at any level is an absent leaf.
\<close>

record endpoint =
  ep_port :: "pval option"
  ep_scheme :: "string option"
  ep_path :: "string option"
  ep_interval :: "string option"
  ep_ca_name :: "string option"
  ep_ca_key :: "string option"
  ep_server_name :: "string option"

record manifest =
  meta_name :: "string option"
  match_labels :: "(string \<times> string) list"
  endpoints :: "endpoint list"

record tls_cfg =
  ca_file :: "string option"
  server_name :: "string option"

text \<open>A scrape job; \<open>tls_config\<close> is \<open>None\<close> when the key is not in the job dictionary.\<close>

record scrape_job =
  job_name :: string
  metrics_path :: string
  scrape_interval :: string
  scheme :: string
  targets :: "string list"
  tls_config :: "tls_cfg option"

text \<open>The document handed to the YAML serialiser by \<open>_render_prometheus_yml\<close>.\<close>

record prom_config =
  global_scrape_interval :: string
  scrape_configs :: "scrape_job list"

record prom_spec =
  ps_image :: string
  ps_version :: string
  ps_retention :: string

record prom_manifest =
  pm_name :: "string option"
  pm_image :: "string option"
  pm_version :: "string option"
  pm_retention :: "string option"

record compose_service =
  cs_image :: string
  cs_restart :: string
  cs_command :: "string list"
  cs_volumes :: "string list"
  cs_ports :: "string list"

text \<open>
  Each warning is one f-string template of the source with the values it interpolates:
  \<^item> \<open>NoSelector name\<close>: ServiceMonitor 'name': no selector.matchLabels, skipping
  \<^item> \<open>NoServiceMatch name labels\<close>: ServiceMonitor 'name': no K8s Service matches labels
    \<open>labels\<close>, skipping
  \<^item> \<open>UnresolvedPort name port_ref\<close>: ServiceMonitor 'name': could not resolve port
    'port_ref' to a number, skipping endpoint
  \<^item> \<open>CaNotFound name cm\<close>: ServiceMonitor 'name': CA configmap 'cm' not found, TLS job
    generated without ca_file
  \<^item> \<open>NoResolvable\<close>: No resolvable ServiceMonitors found
  \<^item> \<open>NoPrometheusCR image retention\<close>: No Prometheus CR found in manifests, using
    defaults (image=..., retention=...)
\<close>

datatype warning =
    NoSelector string
  | NoServiceMatch string "(string \<times> string) list"
  | UnresolvedPort string string
  | CaNotFound string string
  | NoResolvable
  | NoPrometheusCR string string

text \<open>
  The run context. \<open>files\<close> records every file written: the path components given to
  \<open>os.path.join\<close> and the document that is serialised into it. The write is taken to
  succeed.
\<close>

record ctx =
  config_exclude :: "string list"
  warnings :: "warning list"
  alias_map :: "(string \<times> string) list"
  services_by_selector :: "(string \<times> svc_info) list"
  configmaps :: "string set"
  generated_cms :: "string set"
  output_dir :: string
  files :: "(string list \<times> prom_config) list"

definition warn :: "warning \<Rightarrow> ctx \<Rightarrow> ctx" where
  "warn w c = c\<lparr>warnings := warnings c @ [w]\<rparr>"

text \<open>\<open>d.get(k, k)\<close> on the alias table.\<close>

definition alias_get :: "(string \<times> string) list \<Rightarrow> string \<Rightarrow> string" where
  "alias_get am k = (case map_of am k of None \<Rightarrow> k | Some v \<Rightarrow> v)"

text \<open>\<open>d[k] = v\<close>: replace in place, or append a new key at the end.\<close>

fun dict_set :: "'k \<Rightarrow> 'v \<Rightarrow> ('k \<times> 'v) list \<Rightarrow> ('k \<times> 'v) list" where
  "dict_set k v [] = [(k, v)]"
| "dict_set k v (p # ps) = (if fst p = k then (k, v) # ps else p # dict_set k v ps)"

section \<open>Phase 1: indexing the Prometheus resource\<close>

text \<open>
  \<open>_index_prometheus\<close>: the first manifest sets the spec; each later one prints a line to
  standard error, returned here as the name it reports.
\<close>

definition index_prometheus ::
  "prom_manifest list \<Rightarrow> prom_spec option \<Rightarrow> prom_spec option \<times> string list" where
  "index_prometheus ms old =
     (case ms of
        [] \<Rightarrow> (old, [])
      | m # rest \<Rightarrow>
          (Some \<lparr>ps_image = get_or (pm_image m) '''', ps_version = get_or (pm_version m) '''',
                 ps_retention = get_or (pm_retention m) ''''\<rparr>,
           map (\<lambda>x. get_or (pm_name x) ''?'') rest))"

section \<open>Service resolution\<close>

text \<open>\<open>_find_service\<close>: the first registry entry with a non-empty selector that holds
  every pair of \<open>match_labels\<close>.\<close>

fun find_service_in ::
  "(string \<times> string) list \<Rightarrow> (string \<times> svc_info) list \<Rightarrow> svc_info option" where
  "find_service_in ml [] = None"
| "find_service_in ml (kv # rest) =
     (let selector = svc_selector (snd kv) in
      if selector = [] then find_service_in ml rest
      else if list_all (\<lambda>(k, v). map_of selector k = Some v) ml then Some (snd kv)
      else find_service_in ml rest)"

definition find_service :: "(string \<times> string) list \<Rightarrow> ctx \<Rightarrow> svc_info option" where
  "find_service ml c = find_service_in ml (services_by_selector c)"

text \<open>\<open>_fallback_by_name\<close>.\<close>

fun fallback_loop :: "(string \<times> string) list \<Rightarrow> string set \<Rightarrow> string list \<Rightarrow> string option" where
  "fallback_loop am known [] = None"
| "fallback_loop am known (candidate # rest) =
     (let compose_name = alias_get am candidate in
      if compose_name \<in> known then Some compose_name else fallback_loop am known rest)"

definition known_names :: "ctx \<Rightarrow> string set" where
  "known_names c =
     (set (map snd (alias_map c)) \<union> set (map fst (alias_map c)))
       \<union> set (map fst (services_by_selector c))"

definition fallback_by_name ::
  "string \<Rightarrow> (string \<times> string) list \<Rightarrow> ctx \<Rightarrow> string option" where
  "fallback_by_name sm_name ml c =
     (let candidates = sm_name # map snd ml in
      fallback_loop (alias_map c) (known_names c) candidates)"

section \<open>Port resolution\<close>

text \<open>\<open>sp.get("targetPort", sp.get("port"))\<close>.\<close>

definition target_or_port :: "service_port \<Rightarrow> pval option" where
  "target_or_port sp = (case sp_targetPort sp of Some t \<Rightarrow> Some t | None \<Rightarrow> sp_port sp)"

text \<open>The loop over the service's ports for a named port.\<close>

fun named_port :: "string \<Rightarrow> service_port list \<Rightarrow> pval option" where
  "named_port port_ref [] = None"
| "named_port port_ref (sp # rest) =
     (if sp_name sp = Some port_ref then
        (case target_or_port sp of
           Some (PInt i) \<Rightarrow> Some (PInt i)
         | Some (PStr s) \<Rightarrow> (if py_isdigit s then Some (PInt (py_int s)) else None)
         | None \<Rightarrow> None)
      else named_port port_ref rest)"

text \<open>\<open>_resolve_port\<close>, with result \<open>int | str | None\<close>.\<close>

definition resolve_port :: "endpoint \<Rightarrow> svc_info option \<Rightarrow> pval option" where
  "resolve_port ep svc =
     (if \<not> port_truthy (ep_port ep) then
        (case svc of
           None \<Rightarrow> None
         | Some si \<Rightarrow> (case svc_ports si of [] \<Rightarrow> None | p0 # _ \<Rightarrow> target_or_port p0))
      else
        (case ep_port ep of
           Some (PInt i) \<Rightarrow> Some (PInt i)
         | Some (PStr s) \<Rightarrow>
             (if py_isdigit s then Some (PInt (py_int s))
              else (case svc of None \<Rightarrow> None | Some si \<Rightarrow> named_port s (svc_ports si)))
         | None \<Rightarrow> None))"

section \<open>TLS settings and scrape jobs\<close>

definition ca_container_path :: "string \<Rightarrow> string \<Rightarrow> string" where
  "ca_container_path cm_name cm_key = ''/etc/prometheus/ca/'' @ cm_name @ ''/'' @ cm_key"

definition ca_mount_line :: "string \<Rightarrow> string \<Rightarrow> string" where
  "ca_mount_line cm_name cm_key =
     ''./configmaps/'' @ cm_name @ ''/'' @ cm_key @ '':'' @ ca_container_path cm_name cm_key
       @ '':ro''"

text \<open>\<open>_build_tls_config\<close>: the TLS dictionary, the CA mounts and the context.\<close>

definition build_tls_config :: "endpoint \<Rightarrow> string \<Rightarrow> ctx \<Rightarrow> (tls_cfg \<times> string list) \<times> ctx" where
  "build_tls_config ep sm_name c =
     (let cm_name = get_or (ep_ca_name ep) '''';
          cm_key = get_or (ep_ca_key ep) ''ca-certificates.crt'';
          (ca, ca_mounts, c') =
            (if cm_name \<noteq> [] \<and> cm_name \<in> configmaps c then
               (Some (ca_container_path cm_name cm_key), [ca_mount_line cm_name cm_key], c)
             else if cm_name \<noteq> [] then (None, [], warn (CaNotFound sm_name cm_name) c)
             else (None, [], c));
          sn = get_or (ep_server_name ep) ''''
      in ((\<lparr>ca_file = ca, server_name = (if sn \<noteq> [] then Some sn else None)\<rparr>, ca_mounts), c'))"

text \<open>Truthiness of the TLS dictionary: it has at least one key.\<close>

definition tls_nonempty :: "tls_cfg \<Rightarrow> bool" where
  "tls_nonempty t = (ca_file t \<noteq> None \<or> server_name t \<noteq> None)"

text \<open>The token shown by the unresolved-port warning: \<open>ep.get("port", "(none)")\<close>.\<close>

definition port_token :: "endpoint \<Rightarrow> string" where
  "port_token ep = (case ep_port ep of None \<Rightarrow> ''(none)'' | Some v \<Rightarrow> show_pval v)"

definition make_job_name :: "string \<Rightarrow> nat \<Rightarrow> nat \<Rightarrow> string" where
  "make_job_name sm_name ep_idx ep_count =
     (if ep_count = 1 then sm_name else sm_name @ ''-'' @ show_nat ep_idx)"

text \<open>The namespace used for the target host.\<close>

definition target_namespace :: "svc_info option \<Rightarrow> string \<Rightarrow> ctx \<Rightarrow> string" where
  "target_namespace svc compose_name c =
     (let ns = (case map_of (services_by_selector c) compose_name of
                  None \<Rightarrow> '''' | Some si \<Rightarrow> svc_namespace si)
      in case svc of None \<Rightarrow> ns | Some si \<Rightarrow> str_or (svc_namespace si) ns)"

definition target_host :: "svc_info option \<Rightarrow> string \<Rightarrow> ctx \<Rightarrow> string" where
  "target_host svc compose_name c =
     (let ns = target_namespace svc compose_name c in
      if ns \<noteq> [] then compose_name @ ''.'' @ ns @ ''.svc.cluster.local'' else compose_name)"

text \<open>\<open>_build_scrape_job\<close>: \<open>None\<close>, or the job with its CA mounts.\<close>

definition build_scrape_job ::
  "string \<Rightarrow> nat \<Rightarrow> nat \<Rightarrow> endpoint \<Rightarrow> svc_info option \<Rightarrow> string \<Rightarrow> ctx
     \<Rightarrow> (scrape_job \<times> string list) option \<times> ctx" where
  "build_scrape_job sm_name ep_idx ep_count ep svc compose_name c =
     (case resolve_port ep svc of
        None \<Rightarrow> (None, warn (UnresolvedPort sm_name (port_token ep)) c)
      | Some port \<Rightarrow>
          (let sch = get_or (ep_scheme ep) ''http'';
               job = \<lparr>job_name = make_job_name sm_name ep_idx ep_count,
                      metrics_path = get_or (ep_path ep) ''/metrics'',
                      scrape_interval = get_or (ep_interval ep) ''30s'',
                      scheme = sch,
                      targets = [target_host svc compose_name c @ '':'' @ show_pval port],
                      tls_config = None\<rparr>
           in if sch = ''https'' then
                (case build_tls_config ep sm_name c of
                   ((tls, ca_mounts), c') \<Rightarrow>
                     (Some (if tls_nonempty tls then job\<lparr>tls_config := Some tls\<rparr> else job,
                            ca_mounts), c'))
              else (Some (job, []), c)))"

section \<open>Phase 2: processing the ServiceMonitors\<close>

text \<open>
  \<open>fnmatch.fnmatch\<close> belongs to the Python library; the glob matcher is a parameter
  \<open>fnm name pattern\<close> of everything that filters by exclusion.
\<close>

definition is_excluded :: "(string \<Rightarrow> string \<Rightarrow> bool) \<Rightarrow> string \<Rightarrow> string list \<Rightarrow> bool" where
  "is_excluded fnm name exclude = list_ex (\<lambda>pat. fnm name pat) exclude"

type_synonym acc = "scrape_job list \<times> string list \<times> ctx"

text \<open>The loop over \<open>enumerate(endpoints)\<close>.\<close>

fun process_endpoints ::
  "string \<Rightarrow> nat \<Rightarrow> svc_info option \<Rightarrow> string \<Rightarrow> (nat \<times> endpoint) list \<Rightarrow> acc \<Rightarrow> acc" where
  "process_endpoints name n svc compose_name [] a = a"
| "process_endpoints name n svc compose_name (ie # rest) a =
     (case a of (scrape_jobs, ca_mounts, c) \<Rightarrow>
        (case build_scrape_job name (fst ie) n (snd ie) svc compose_name c of
           (None, c') \<Rightarrow> process_endpoints name n svc compose_name rest (scrape_jobs, ca_mounts, c')
         | (Some (job, cas), c') \<Rightarrow>
             process_endpoints name n svc compose_name rest
               (scrape_jobs @ [job], ca_mounts @ cas, c')))"

text \<open>The part of the loop body after the target is resolved: exclusion, then the endpoints.\<close>

definition scrape_monitor ::
  "(string \<Rightarrow> string \<Rightarrow> bool) \<Rightarrow> string list \<Rightarrow> manifest \<Rightarrow> string \<Rightarrow> svc_info option \<Rightarrow> string
     \<Rightarrow> acc \<Rightarrow> acc" where
  "scrape_monitor fnm exclude m name svc compose_name a =
     (if is_excluded fnm compose_name exclude then a
      else process_endpoints name (length (endpoints m)) svc compose_name
             (enumerate 0 (endpoints m)) a)"

text \<open>The body of the loop over the manifests.\<close>

definition process_monitor ::
  "(string \<Rightarrow> string \<Rightarrow> bool) \<Rightarrow> string list \<Rightarrow> manifest \<Rightarrow> acc \<Rightarrow> acc" where
  "process_monitor fnm exclude m a =
     (case a of (scrape_jobs, ca_mounts, c) \<Rightarrow>
        (let name = get_or (meta_name m) ''?'';
             ml = match_labels m
         in if ml = [] then (scrape_jobs, ca_mounts, warn (NoSelector name) c)
            else
              (case find_service ml c of
                 Some target_svc \<Rightarrow>
                   scrape_monitor fnm exclude m name (Some target_svc)
                     (alias_get (alias_map c) (svc_name target_svc)) a
               | None \<Rightarrow>
                   (case fallback_by_name name ml c of
                      None \<Rightarrow> (scrape_jobs, ca_mounts, warn (NoServiceMatch name ml) c)
                    | Some compose_name \<Rightarrow>
                        scrape_monitor fnm exclude m name None compose_name a))))"

fun process_monitors ::
  "(string \<Rightarrow> string \<Rightarrow> bool) \<Rightarrow> string list \<Rightarrow> manifest list \<Rightarrow> acc \<Rightarrow> acc" where
  "process_monitors fnm exclude [] a = a"
| "process_monitors fnm exclude (m # ms) a =
     process_monitors fnm exclude ms (process_monitor fnm exclude m a)"

section \<open>Output\<close>

definition render_prometheus_yml :: "scrape_job list \<Rightarrow> prom_config" where
  "render_prometheus_yml scrape_jobs =
     \<lparr>global_scrape_interval = ''30s'', scrape_configs = scrape_jobs\<rparr>"

definition write_scrape_config :: "scrape_job list \<Rightarrow> ctx \<Rightarrow> ctx" where
  "write_scrape_config scrape_jobs c =
     (let cm_name = ''prometheus-scrape-config'' in
      c\<lparr>files := files c @
           [([output_dir c, ''configmaps'', cm_name, ''prometheus.yml''],
             render_prometheus_yml scrape_jobs)],
        generated_cms := insert cm_name (generated_cms c)\<rparr>)"

definition scrape_config_mount :: string where
  "scrape_config_mount =
     ''./configmaps/prometheus-scrape-config/prometheus.yml:/etc/prometheus/prometheus.yml:ro''"

text \<open>The loop that appends the CA mounts not seen before.\<close>

fun add_mounts :: "string set \<Rightarrow> string list \<Rightarrow> string list \<Rightarrow> string list" where
  "add_mounts seen volumes [] = volumes"
| "add_mounts seen volumes (mount # rest) =
     (if mount \<notin> seen then add_mounts (insert mount seen) (volumes @ [mount]) rest
      else add_mounts seen volumes rest)"

definition prometheus_image :: "prom_spec option \<Rightarrow> string" where
  "prometheus_image spec =
     (let image = str_or (case spec of None \<Rightarrow> '''' | Some p \<Rightarrow> ps_image p) ''prom/prometheus'';
          version = (case spec of None \<Rightarrow> '''' | Some p \<Rightarrow> ps_version p)
      in if version \<noteq> [] \<and> CHR '':'' \<notin> set image then image @ '':v'' @ lstrip_v version
         else if CHR '':'' \<notin> set image then image @ '':latest''
         else image)"

definition prometheus_retention :: "prom_spec option \<Rightarrow> string" where
  "prometheus_retention spec =
     str_or (case spec of None \<Rightarrow> '''' | Some p \<Rightarrow> ps_retention p) ''15d''"

text \<open>\<open>_build_prometheus_service\<close>.\<close>

definition build_prometheus_service ::
  "prom_spec option \<Rightarrow> string list \<Rightarrow> ctx \<Rightarrow> compose_service \<times> ctx" where
  "build_prometheus_service spec ca_mounts c =
     (let image = prometheus_image spec;
          retention = prometheus_retention spec;
          c' = (if spec = None then warn (NoPrometheusCR image retention) c else c);
          volumes = add_mounts {} [scrape_config_mount] ca_mounts
      in (\<lparr>cs_image = image, cs_restart = ''always'',
            cs_command = [''--config.file=/etc/prometheus/prometheus.yml'',
                          ''--storage.tsdb.retention.time='' @ retention],
            cs_volumes = volumes, cs_ports = [''9090:9090'']\<rparr>, c'))"

text \<open>\<open>_find_prometheus_k8s_service\<close>.\<close>

definition exposes_9090 :: "service_port \<Rightarrow> bool" where
  "exposes_9090 p = (sp_port p = Some (PInt 9090) \<or> sp_targetPort p = Some (PInt 9090))"

fun find_prometheus_in :: "(string \<times> svc_info) list \<Rightarrow> svc_info option" where
  "find_prometheus_in [] = None"
| "find_prometheus_in (kv # rest) =
     (if py_in ''prometheus'' (fst kv) \<and> fst kv \<noteq> ''prometheus''
         \<and> list_ex exposes_9090 (svc_ports (snd kv))
      then Some (snd kv) else find_prometheus_in rest)"

definition find_prometheus_k8s_service :: "ctx \<Rightarrow> svc_info option" where
  "find_prometheus_k8s_service c = find_prometheus_in (services_by_selector c)"

text \<open>The registry entry registered for the monitoring service itself.\<close>

definition synthetic_entry :: "string \<Rightarrow> service_port list \<Rightarrow> svc_info" where
  "synthetic_entry ns ports =
     \<lparr>svc_name = ''prometheus'', svc_namespace = ns, svc_selector = [],
      svc_type = ''ClusterIP'', svc_ports = ports\<rparr>"

definition register_prometheus :: "ctx \<Rightarrow> ctx" where
  "register_prometheus c =
     (case find_prometheus_k8s_service c of
        None \<Rightarrow> c
      | Some k8s_svc \<Rightarrow>
          (let c1 = c\<lparr>alias_map := dict_set (svc_name k8s_svc) ''prometheus'' (alias_map c)\<rparr>
           in if ''prometheus'' \<notin> set (map fst (services_by_selector c1)) then
                c1\<lparr>services_by_selector := services_by_selector c1 @
                      [(''prometheus'',
                        synthetic_entry (svc_namespace k8s_svc) (svc_ports k8s_svc))]\<rparr>
              else c1))"

text \<open>\<open>_process_servicemonitors\<close>: the services of the result and the context.\<close>

definition process_servicemonitors ::
  "(string \<Rightarrow> string \<Rightarrow> bool) \<Rightarrow> prom_spec option \<Rightarrow> manifest list \<Rightarrow> ctx
     \<Rightarrow> (string \<times> compose_service) list \<times> ctx" where
  "process_servicemonitors fnm spec manifests c =
     (if manifests = [] then ([], c)
      else
        (case process_monitors fnm (config_exclude c) manifests ([], [], c) of
           (scrape_jobs, ca_mounts, c1) \<Rightarrow>
             if scrape_jobs = [] then ([], warn NoResolvable c1)
             else
               (let c2 = write_scrape_config scrape_jobs c1;
                    (service, c3) = build_prometheus_service spec ca_mounts c2
                in ([(''prometheus'', service)], register_prometheus c3))))"

section \<open>Reference definitions\<close>

text \<open>Deduplication that keeps the first occurrence of every element, in order.\<close>

fun first_seen :: "'a list \<Rightarrow> 'a list" where
  "first_seen [] = []"
| "first_seen (x # xs) = x # first_seen (filter (\<lambda>y. y \<noteq> x) xs)"

text \<open>
  The name heuristic as the specification words it: the first candidate whose name,
  resolved through the alias table, is a known name; the result is the resolved name.
\<close>

definition first_accepted ::
  "(string \<times> string) list \<Rightarrow> string set \<Rightarrow> string list \<Rightarrow> string option" where
  "first_accepted am known candidates =
     map_option (alias_get am) (find (\<lambda>cand. alias_get am cand \<in> known) candidates)"

text \<open>The compose name a monitor resolves to, by label match or else by the name heuristic
  (the two branches of the loop body).\<close>

definition resolved_name :: "string \<Rightarrow> (string \<times> string) list \<Rightarrow> ctx \<Rightarrow> string option" where
  "resolved_name name ml c =
     (case find_service ml c of
        Some svc \<Rightarrow> Some (alias_get (alias_map c) (svc_name svc))
      | None \<Rightarrow> fallback_by_name name ml c)"

section \<open>Example inputs\<close>

text \<open>A matcher used in the examples: the pattern \<open>*\<close> or the name itself.\<close>

definition glob_eq :: "string \<Rightarrow> string \<Rightarrow> bool" where
  "glob_eq name pat = (pat = ''*'' \<or> name = pat)"

definition ex_api_svc :: svc_info where
  "ex_api_svc =
     \<lparr>svc_name = ''api'', svc_namespace = ''prod'', svc_selector = [(''app'', ''api'')],
      svc_type = ''ClusterIP'',
      svc_ports = [\<lparr>sp_name = Some ''http'', sp_port = Some (PInt 8080),
                    sp_targetPort = Some (PInt 8080)\<rparr>]\<rparr>"

definition ex_ctx :: ctx where
  "ex_ctx =
     \<lparr>config_exclude = [], warnings = [], alias_map = [(''keycloak-svc'', ''keycloak'')],
      services_by_selector = [(''api'', ex_api_svc)], configmaps = {''ca-bundle''},
      generated_cms = {}, output_dir = ''out'', files = []\<rparr>"

definition ex_endpoint :: endpoint where
  "ex_endpoint =
     \<lparr>ep_port = Some (PStr ''http''), ep_scheme = None, ep_path = Some ''/metrics'',
      ep_interval = None, ep_ca_name = None, ep_ca_key = None, ep_server_name = None\<rparr>"

definition ex_tls_endpoint :: endpoint where
  "ex_tls_endpoint =
     \<lparr>ep_port = Some (PInt 8443), ep_scheme = Some ''https'', ep_path = None,
      ep_interval = None, ep_ca_name = Some ''missing-ca'', ep_ca_key = None,
      ep_server_name = None\<rparr>"

definition ex_named_endpoint :: endpoint where
  "ex_named_endpoint =
     \<lparr>ep_port = Some (PStr ''nope''), ep_scheme = None, ep_path = None,
      ep_interval = None, ep_ca_name = None, ep_ca_key = None, ep_server_name = None\<rparr>"

definition ex_monitor :: manifest where
  "ex_monitor =
     \<lparr>meta_name = Some ''api'', match_labels = [(''app'', ''api'')], endpoints = [ex_endpoint]\<rparr>"

definition ex_fallback_monitor :: manifest where
  "ex_fallback_monitor =
     \<lparr>meta_name = Some ''keycloak-metrics'', match_labels = [(''app'', ''keycloak-svc'')],
      endpoints = []\<rparr>"

definition ex_ghost_monitor :: manifest where
  "ex_ghost_monitor =
     \<lparr>meta_name = Some ''ghost'', match_labels = [(''app'', ''ghost'')],
      endpoints = [ex_endpoint]\<rparr>"

definition ex_failing_monitor :: manifest where
  "ex_failing_monitor =
     \<lparr>meta_name = Some ''api'', match_labels = [(''app'', ''api'')],
      endpoints = [ex_named_endpoint, ex_tls_endpoint]\<rparr>"

definition ex_spec :: prom_spec where
  "ex_spec =
     \<lparr>ps_image = ''quay.io/prometheus/prometheus'', ps_version = ''2.45.0'',
      ps_retention = ''30d''\<rparr>"

definition ex_two_endpoint_monitor :: manifest where
  "ex_two_endpoint_monitor =
     \<lparr>meta_name = Some ''api'', match_labels = [(''app'', ''api'')],
      endpoints = [ex_endpoint, ex_endpoint]\<rparr>"

definition ex_suffix_monitor :: manifest where
  "ex_suffix_monitor =
     \<lparr>meta_name = Some ''api-0'', match_labels = [(''app'', ''api'')],
      endpoints = [ex_endpoint]\<rparr>"

definition ex_web_svc :: svc_info where
  "ex_web_svc =
     \<lparr>svc_name = ''web'', svc_namespace = ''prod'', svc_selector = [(''app'', ''web'')],
      svc_type = ''ClusterIP'',
      svc_ports = [\<lparr>sp_name = Some ''metrics'', sp_port = Some (PInt 9100),
                    sp_targetPort = Some (PStr ''metrics'')\<rparr>]\<rparr>"

definition ex_web_ctx :: ctx where
  "ex_web_ctx =
     \<lparr>config_exclude = [], warnings = [], alias_map = [],
      services_by_selector = [(''web'', ex_web_svc)], configmaps = {},
      generated_cms = {}, output_dir = ''out'', files = []\<rparr>"

definition ex_implicit_endpoint :: endpoint where
  "ex_implicit_endpoint =
     \<lparr>ep_port = None, ep_scheme = None, ep_path = None, ep_interval = None,
      ep_ca_name = None, ep_ca_key = None, ep_server_name = None\<rparr>"

definition ex_web_monitor :: manifest where
  "ex_web_monitor =
     \<lparr>meta_name = Some ''web'', match_labels = [(''app'', ''web'')],
      endpoints = [ex_implicit_endpoint]\<rparr>"

definition ex_ca_endpoint :: endpoint where
  "ex_ca_endpoint =
     \<lparr>ep_port = Some (PInt 8443), ep_scheme = Some ''https'', ep_path = None,
      ep_interval = None, ep_ca_name = Some ''ca-bundle'', ep_ca_key = None,
      ep_server_name = None\<rparr>"

definition ex_ca_monitor :: manifest where
  "ex_ca_monitor =
     \<lparr>meta_name = Some ''api'', match_labels = [(''app'', ''api'')],
      endpoints = [ex_ca_endpoint, ex_ca_endpoint]\<rparr>"

definition ex_tls_unresolved_endpoint :: endpoint where
  "ex_tls_unresolved_endpoint =
     \<lparr>ep_port = Some (PStr ''nope''), ep_scheme = Some ''https'', ep_path = None,
      ep_interval = None, ep_ca_name = Some ''missing-ca'', ep_ca_key = None,
      ep_server_name = None\<rparr>"

section \<open>Evaluation rules\<close>

lemmas model_defs =
  find_service_def fallback_by_name_def known_names_def alias_get_def get_or_def
  process_monitor_def scrape_monitor_def is_excluded_def build_scrape_job_def
  build_tls_config_def resolve_port_def target_or_port_def target_host_def
  target_namespace_def str_or_def make_job_name_def port_token_def tls_nonempty_def
  warn_def py_isdigit_def is_digit_char_def py_int_def digits_to_nat_def digit_val_def
  show_int_def digit_char_def Let_def

lemmas example_defs =
  ex_ctx_def ex_api_svc_def ex_endpoint_def ex_monitor_def ex_spec_def glob_eq_def
  ex_fallback_monitor_def ex_ghost_monitor_def ex_tls_endpoint_def ex_named_endpoint_def
  ex_failing_monitor_def ex_two_endpoint_monitor_def ex_suffix_monitor_def ex_web_svc_def
  ex_web_ctx_def ex_implicit_endpoint_def ex_web_monitor_def

lemma show_nat_digit: "n < 10 \<Longrightarrow> show_nat n = [digit_char n]"
  by (simp add: show_nat.simps)

lemma show_nat_step:
  "\<not> n < 10 \<Longrightarrow> show_nat n = show_nat (n div 10) @ [digit_char (n mod 10)]"
  by (simp add: show_nat.simps)

lemma show_nat_8080: "show_nat 8080 = ''8080''"
  by (simp add: show_nat_digit show_nat_step digit_char_def)

lemma show_nat_8443: "show_nat 8443 = ''8443''"
  by (simp add: show_nat_digit show_nat_step digit_char_def)

section \<open>Label match and the synthetic registry entry\<close>

lemma find_service_in_selector:
  "find_service_in ml reg = Some svc \<Longrightarrow> svc_selector svc \<noteq> []"
  by (induction reg) (auto simp: Let_def split: if_splits)

lemma find_service_in_append_empty:
  "svc_selector e = [] \<Longrightarrow> find_service_in ml (reg @ [(k, e)]) = find_service_in ml reg"
  by (induction reg) (auto simp: Let_def)

lemma find_service_register:
  "find_service ml (register_prometheus c) = find_service ml c"
  by (simp add: find_service_def register_prometheus_def Let_def synthetic_entry_def
      find_service_in_append_empty split: option.splits)

text \<open>
  Claim C10. For every \<open>matchLabels\<close> (so for every non-empty one), the label match never
  returns a registry service whose selector is empty. In particular it never returns the
  synthetic entry, and registering the monitoring service leaves every label match as
  it was.
\<close>

theorem label_match_skips_empty_selector:
  "(\<forall>svc. find_service ml c = Some svc \<longrightarrow> svc_selector svc \<noteq> [])
   \<and> find_service ml c \<noteq> Some (synthetic_entry ns ports)
   \<and> find_service ml (register_prometheus c) = find_service ml c"
proof -
  have a: "\<forall>svc. find_service ml c = Some svc \<longrightarrow> svc_selector svc \<noteq> []"
    by (auto simp: find_service_def dest: find_service_in_selector)
  have "svc_selector (synthetic_entry ns ports) = []"
    by (simp add: synthetic_entry_def)
  with a have b: "find_service ml c \<noteq> Some (synthetic_entry ns ports)"
    by blast
  from a b show ?thesis
    by (simp add: find_service_register)
qed

theorem label_match_skips_empty_selector_witness:
  "find_service [(''app'', ''api'')]
     (ex_ctx\<lparr>services_by_selector :=
        (''prometheus'', synthetic_entry ''prod'' []) # services_by_selector ex_ctx\<rparr>)
     = Some ex_api_svc
   \<and> svc_selector ex_api_svc \<noteq> []"
  using label_match_skips_empty_selector
    [of "[(''app'', ''api'')]"
        "ex_ctx\<lparr>services_by_selector :=
           (''prometheus'', synthetic_entry ''prod'' []) # services_by_selector ex_ctx\<rparr>"
        "''prod''" "[]"]
  by (simp add: find_service_def ex_ctx_def ex_api_svc_def synthetic_entry_def)

section \<open>Volume list\<close>

lemma add_mounts_first_seen:
  "add_mounts seen volumes ms = volumes @ first_seen (filter (\<lambda>m. m \<notin> seen) ms)"
proof (induction ms arbitrary: seen volumes)
  case Nil
  then show ?case by simp
next
  case (Cons m ms)
  have eq: "filter (\<lambda>y. y \<noteq> m) (filter (\<lambda>x. x \<notin> seen) ms)
              = filter (\<lambda>x. x \<notin> insert m seen) ms"
    by (induction ms) auto
  show ?case using Cons.IH eq by simp
qed

lemma set_first_seen: "set (first_seen xs) = set xs"
  by (induction xs rule: first_seen.induct) auto

lemma distinct_first_seen: "distinct (first_seen xs)"
  by (induction xs rule: first_seen.induct) (auto simp: set_first_seen)

lemma count_list_distinct: "distinct xs \<Longrightarrow> x \<in> set xs \<Longrightarrow> count_list xs x = 1"
  by (induction xs) auto

lemma volumes_eq:
  "cs_volumes (fst (build_prometheus_service spec ca_mounts c))
     = scrape_config_mount # first_seen ca_mounts"
  by (simp add: build_prometheus_service_def Let_def add_mounts_first_seen)

section \<open>Image and retention\<close>

text \<open>
  Claim C8. The image of the service definition is the indexed image, or
  \<open>prom/prometheus\<close> when none is set; a set version appends \<open>:v\<close> and the version without
  its leading \<open>v\<close>s when the image has no colon, otherwise \<open>:latest\<close> is appended when the
  image has no colon. The retention is the indexed one or \<open>15d\<close>. The warning about the
  defaults, carrying the image and retention used, is appended exactly when no Prometheus
  resource was indexed, which after indexing from an unset state means the manifest list
  was empty.
\<close>

theorem prometheus_image_and_retention:
  "(let (svc, c') = build_prometheus_service spec ca_mounts c;
        img = (case spec of None \<Rightarrow> [] | Some p \<Rightarrow> ps_image p);
        ver = (case spec of None \<Rightarrow> [] | Some p \<Rightarrow> ps_version p);
        ret = (case spec of None \<Rightarrow> [] | Some p \<Rightarrow> ps_retention p);
        base = (if img = [] then ''prom/prometheus'' else img);
        image = (if ver \<noteq> [] \<and> CHR '':'' \<notin> set base
                 then base @ '':v'' @ dropWhile (\<lambda>x. x = CHR ''v'') ver
                 else if CHR '':'' \<notin> set base then base @ '':latest'' else base);
        retention = (if ret = [] then ''15d'' else ret)
    in cs_image svc = image
       \<and> cs_command svc = [''--config.file=/etc/prometheus/prometheus.yml'',
                           ''--storage.tsdb.retention.time='' @ retention]
       \<and> warnings c' = warnings c @ (if spec = None then [NoPrometheusCR image retention] else []))
   \<and> ((fst (index_prometheus ms None) = None) = (ms = []))"
  by (auto simp: build_prometheus_service_def prometheus_image_def prometheus_retention_def
      str_or_def lstrip_v_def warn_def Let_def index_prometheus_def
      split: option.splits list.splits)

theorem prometheus_image_and_retention_witness:
  "cs_image (fst (build_prometheus_service None [] ex_ctx)) = ''prom/prometheus:latest''
   \<and> warnings (snd (build_prometheus_service None [] ex_ctx))
        = [NoPrometheusCR ''prom/prometheus:latest'' ''15d'']
   \<and> cs_image (fst (build_prometheus_service (Some ex_spec) [] ex_ctx))
        = ''quay.io/prometheus/prometheus:v2.45.0''
   \<and> warnings (snd (build_prometheus_service (Some ex_spec) [] ex_ctx)) = []"
  using prometheus_image_and_retention [of None "[]" ex_ctx "[]"]
    prometheus_image_and_retention [of "Some ex_spec" "[]" ex_ctx "[]"]
  by (simp add: ex_ctx_def ex_spec_def Let_def split_beta)

section \<open>Name heuristic\<close>

lemma fallback_loop_first_accepted:
  "fallback_loop am known cands = first_accepted am known cands"
  by (induction cands) (simp_all add: first_accepted_def Let_def)

text \<open>
  Claim C1. For a monitor with non-empty \<open>matchLabels\<close> that match no registry service, the
  name heuristic returns the resolved name of the first accepted candidate of the list
  made of the monitor name followed by the \<open>matchLabels\<close> values in order; a candidate is
  accepted when its alias-resolved name is an alias key, an alias value or a registry
  name. When none is accepted the monitor adds no job and no mount, and exactly the
  warning with its name and selector is appended; otherwise the monitor goes on with the
  accepted name and no service.
\<close>

theorem fallback_first_accepted_candidate:
  assumes "match_labels m \<noteq> []" and "find_service (match_labels m) c = None"
  shows "fallback_by_name (get_or (meta_name m) ''?'') (match_labels m) c
           = first_accepted (alias_map c)
               (set (map fst (alias_map c)) \<union> set (map snd (alias_map c))
                  \<union> set (map fst (services_by_selector c)))
               (get_or (meta_name m) ''?'' # map snd (match_labels m))
         \<and> (fallback_by_name (get_or (meta_name m) ''?'') (match_labels m) c = None \<longrightarrow>
              process_monitor fnm exclude m (jobs, mounts, c)
                = (jobs, mounts,
                   c\<lparr>warnings := warnings c @
                       [NoServiceMatch (get_or (meta_name m) ''?'') (match_labels m)]\<rparr>))
         \<and> (\<forall>cn. fallback_by_name (get_or (meta_name m) ''?'') (match_labels m) c = Some cn \<longrightarrow>
              process_monitor fnm exclude m (jobs, mounts, c)
                = scrape_monitor fnm exclude m (get_or (meta_name m) ''?'') None cn
                    (jobs, mounts, c))"
proof -
  have k: "known_names c = set (map fst (alias_map c)) \<union> set (map snd (alias_map c))
                  \<union> set (map fst (services_by_selector c))"
    by (auto simp: known_names_def)
  have 1: "fallback_by_name (get_or (meta_name m) ''?'') (match_labels m) c
           = first_accepted (alias_map c)
               (set (map fst (alias_map c)) \<union> set (map snd (alias_map c))
                  \<union> set (map fst (services_by_selector c)))
               (get_or (meta_name m) ''?'' # map snd (match_labels m))"
    unfolding fallback_by_name_def Let_def fallback_loop_first_accepted k ..
  from assms have 2:
    "fallback_by_name (get_or (meta_name m) ''?'') (match_labels m) c = None \<longrightarrow>
       process_monitor fnm exclude m (jobs, mounts, c)
         = (jobs, mounts,
            c\<lparr>warnings := warnings c @
                [NoServiceMatch (get_or (meta_name m) ''?'') (match_labels m)]\<rparr>)"
    by (simp add: process_monitor_def Let_def warn_def)
  from assms have 3:
    "\<forall>cn. fallback_by_name (get_or (meta_name m) ''?'') (match_labels m) c = Some cn \<longrightarrow>
       process_monitor fnm exclude m (jobs, mounts, c)
         = scrape_monitor fnm exclude m (get_or (meta_name m) ''?'') None cn (jobs, mounts, c)"
    by (simp add: process_monitor_def Let_def)
  from 1 2 3 show ?thesis by blast
qed

theorem fallback_first_accepted_candidate_witness:
  "fallback_by_name ''keycloak-metrics'' [(''app'', ''keycloak-svc'')] ex_ctx = Some ''keycloak''
   \<and> first_accepted (alias_map ex_ctx) {''keycloak-svc'', ''keycloak'', ''api''}
        [''keycloak-metrics'', ''keycloak-svc''] = Some ''keycloak''
   \<and> process_monitor glob_eq [] ex_ghost_monitor ([], [], ex_ctx)
        = ([], [], ex_ctx\<lparr>warnings := [NoServiceMatch ''ghost'' [(''app'', ''ghost'')]]\<rparr>)"
proof -
  have a: "match_labels ex_fallback_monitor \<noteq> []"
    by (simp add: ex_fallback_monitor_def)
  have b: "find_service (match_labels ex_fallback_monitor) ex_ctx = None"
    by (simp add: example_defs model_defs)
  have c: "match_labels ex_ghost_monitor \<noteq> []"
    by (simp add: ex_ghost_monitor_def)
  have d: "find_service (match_labels ex_ghost_monitor) ex_ctx = None"
    by (simp add: example_defs model_defs)
  have e: "fallback_by_name ''ghost'' [(''app'', ''ghost'')] ex_ctx = None"
    by (simp add: example_defs model_defs)
  have f: "first_accepted (alias_map ex_ctx) {''keycloak-svc'', ''keycloak'', ''api''}
        [''keycloak-metrics'', ''keycloak-svc''] = Some ''keycloak''"
    by (simp add: first_accepted_def example_defs model_defs)
  show ?thesis
    using fallback_first_accepted_candidate [OF a b, of glob_eq "[]" "[]" "[]"]
      fallback_first_accepted_candidate [OF c d, of glob_eq "[]" "[]" "[]"] e f
    by (simp add: ex_fallback_monitor_def ex_ghost_monitor_def get_or_def ex_ctx_def
        ex_api_svc_def insert_commute)
qed

section \<open>Exclusion\<close>

text \<open>
  Claim C4. A monitor whose resolved compose name matches an exclude pattern changes
  nothing: no job, no mount and no warning, whatever its endpoints are.
\<close>

theorem excluded_monitor_is_silent:
  assumes "match_labels m \<noteq> []"
    and "resolved_name (get_or (meta_name m) ''?'') (match_labels m) c = Some cn"
    and "is_excluded fnm cn exclude"
  shows "process_monitor fnm exclude m (jobs, mounts, c) = (jobs, mounts, c)"
  using assms
  by (auto simp: process_monitor_def resolved_name_def scrape_monitor_def Let_def
      split: option.splits)

theorem excluded_monitor_is_silent_witness:
  "process_monitor glob_eq [''api''] ex_failing_monitor ([], [], ex_ctx) = ([], [], ex_ctx)
   \<and> process_monitor glob_eq [] ex_failing_monitor ([], [], ex_ctx) \<noteq> ([], [], ex_ctx)"
proof -
  have a: "match_labels ex_failing_monitor \<noteq> []"
    by (simp add: ex_failing_monitor_def)
  have b: "resolved_name (get_or (meta_name ex_failing_monitor) ''?'')
             (match_labels ex_failing_monitor) ex_ctx = Some ''api''"
    by (simp add: resolved_name_def example_defs model_defs)
  have c: "is_excluded glob_eq ''api'' [''api'']"
    by (simp add: is_excluded_def glob_eq_def)
  have d: "process_monitor glob_eq [] ex_failing_monitor ([], [], ex_ctx) \<noteq> ([], [], ex_ctx)"
    by (simp add: example_defs model_defs show_nat_8443)
  show ?thesis
    using excluded_monitor_is_silent [OF a b c, of "[]" "[]"] d by simp
qed

section \<open>Target host\<close>

text \<open>
  Claim C5. Every emitted job has the single target \<open>host:port\<close>. The namespace is the one
  of the label-matched service when that is non-empty, else the one of the registry entry
  keyed by the resolved compose name; with a namespace the host is
  \<open>name.namespace.svc.cluster.local\<close>, without one it is the bare resolved name.
\<close>

theorem target_host_and_port:
  assumes "build_scrape_job name idx n ep svc cn c = (Some (job, mounts), c')"
  shows "\<exists>port. resolve_port ep svc = Some port \<and>
           targets job =
             [(let reg_ns = (case map_of (services_by_selector c) cn of
                               None \<Rightarrow> [] | Some e \<Rightarrow> svc_namespace e);
                   ns = (case svc of
                           None \<Rightarrow> reg_ns
                         | Some si \<Rightarrow> if svc_namespace si \<noteq> [] then svc_namespace si else reg_ns)
               in if ns \<noteq> [] then cn @ ''.'' @ ns @ ''.svc.cluster.local'' else cn)
              @ '':'' @ show_pval port]"
  using assms
  by (auto simp: build_scrape_job_def target_host_def target_namespace_def str_or_def Let_def
      split: option.splits if_splits prod.splits)

theorem target_host_and_port_witness:
  "build_scrape_job ''api'' 0 1 ex_endpoint (Some ex_api_svc) ''api'' ex_ctx
     = (Some (\<lparr>job_name = ''api'', metrics_path = ''/metrics'', scrape_interval = ''30s'',
               scheme = ''http'', targets = [''api.prod.svc.cluster.local:8080''],
               tls_config = None\<rparr>, []), ex_ctx)
   \<and> resolve_port ex_endpoint (Some ex_api_svc) = Some (PInt 8080)"
proof -
  have a: "build_scrape_job ''api'' 0 1 ex_endpoint (Some ex_api_svc) ''api'' ex_ctx
     = (Some (\<lparr>job_name = ''api'', metrics_path = ''/metrics'', scrape_interval = ''30s'',
               scheme = ''http'', targets = [''api.prod.svc.cluster.local:8080''],
               tls_config = None\<rparr>, []), ex_ctx)"
    by (simp add: example_defs model_defs show_nat_8080)
  show ?thesis
    using target_host_and_port [OF a] a by (auto simp: example_defs model_defs)
qed

section \<open>Missing CA configmap\<close>

text \<open>
  Claim C6, as amended. For an https endpoint whose port resolves and that names a CA
  configmap outside the known set, the job is emitted with no CA mount and no \<open>ca_file\<close>,
  and exactly one warning is appended. Whenever neither \<open>ca_file\<close> nor \<open>server_name\<close> can
  be set, the emitted job has no \<open>tls_config\<close> key.
\<close>

theorem missing_ca_job_without_ca_file:
  "(get_or (ep_scheme ep) ''http'' = ''https'' \<and> ep_ca_name ep = Some cm \<and> cm \<noteq> []
      \<and> cm \<notin> configmaps c \<and> resolve_port ep svc = Some port \<longrightarrow>
      (\<exists>job. build_scrape_job name idx n ep svc cn c
                = (Some (job, []), c\<lparr>warnings := warnings c @ [CaNotFound name cm]\<rparr>)
            \<and> tls_config job =
                (if get_or (ep_server_name ep) [] = [] then None
                 else Some \<lparr>ca_file = None,
                            server_name = Some (get_or (ep_server_name ep) [])\<rparr>)))
   \<and> (build_scrape_job name idx n ep svc cn c = (Some (job', mounts), c')
        \<and> \<not> (get_or (ep_ca_name ep) [] \<noteq> [] \<and> get_or (ep_ca_name ep) [] \<in> configmaps c)
        \<and> get_or (ep_server_name ep) [] = []
      \<longrightarrow> tls_config job' = None)"
  by (auto simp: build_scrape_job_def build_tls_config_def tls_nonempty_def warn_def get_or_def
      Let_def split: option.splits if_splits prod.splits)

theorem missing_ca_job_without_ca_file_witness:
  "build_scrape_job ''api'' 1 2 ex_tls_endpoint (Some ex_api_svc) ''api'' ex_ctx
     = (Some (\<lparr>job_name = ''api-1'', metrics_path = ''/metrics'', scrape_interval = ''30s'',
               scheme = ''https'', targets = [''api.prod.svc.cluster.local:8443''],
               tls_config = None\<rparr>, []),
        ex_ctx\<lparr>warnings := [CaNotFound ''api'' ''missing-ca'']\<rparr>)"
proof -
  have h: "get_or (ep_scheme ex_tls_endpoint) ''http'' = ''https''
      \<and> ep_ca_name ex_tls_endpoint = Some ''missing-ca'' \<and> ''missing-ca'' \<noteq> []
      \<and> ''missing-ca'' \<notin> configmaps ex_ctx
      \<and> resolve_port ex_tls_endpoint (Some ex_api_svc) = Some (PInt 8443)"
    by (simp add: example_defs model_defs)
  have j: "\<And>job. build_scrape_job ''api'' 1 2 ex_tls_endpoint (Some ex_api_svc) ''api'' ex_ctx
              = (Some (job, []),
                 ex_ctx\<lparr>warnings := warnings ex_ctx @ [CaNotFound ''api'' ''missing-ca'']\<rparr>)
            \<Longrightarrow> tls_config job = None \<Longrightarrow>
         job = \<lparr>job_name = ''api-1'', metrics_path = ''/metrics'', scrape_interval = ''30s'',
               scheme = ''https'', targets = [''api.prod.svc.cluster.local:8443''],
               tls_config = None\<rparr>"
    by (simp add: example_defs model_defs show_nat_8443 show_nat_digit split: if_splits)
  note t = missing_ca_job_without_ca_file
      [of ex_tls_endpoint "''missing-ca''" ex_ctx "Some ex_api_svc" "PInt 8443" "''api''" 1 2
          "''api''", THEN conjunct1]
  from t h obtain job where
    1: "build_scrape_job ''api'' 1 2 ex_tls_endpoint (Some ex_api_svc) ''api'' ex_ctx
          = (Some (job, []),
             ex_ctx\<lparr>warnings := warnings ex_ctx @ [CaNotFound ''api'' ''missing-ca'']\<rparr>)"
    and tc: "tls_config job =
                (if get_or (ep_server_name ex_tls_endpoint) [] = [] then None
                 else Some \<lparr>ca_file = None,
                            server_name = Some (get_or (ep_server_name ex_tls_endpoint) [])\<rparr>)"
    by blast
  from tc have 2: "tls_config job = None"
    by (simp add: ex_tls_endpoint_def get_or_def)
  from j [OF 1 2] 1 show ?thesis by (simp add: ex_ctx_def)
qed

text \<open>
  Claim C6 as stated fails when the port does not resolve: an https endpoint that names a
  missing CA configmap and the unknown port name \<open>nope\<close> is skipped with the port warning
  only; no job is emitted and no CA warning is appended.
\<close>

theorem missing_ca_unresolved_port_no_job:
  "get_or (ep_scheme ex_tls_unresolved_endpoint) ''http'' = ''https''
   \<and> ep_ca_name ex_tls_unresolved_endpoint = Some ''missing-ca''
   \<and> ''missing-ca'' \<notin> configmaps ex_ctx
   \<and> build_scrape_job ''api'' 0 1 ex_tls_unresolved_endpoint (Some ex_api_svc) ''api'' ex_ctx
       = (None, ex_ctx\<lparr>warnings := [UnresolvedPort ''api'' ''nope'']\<rparr>)"
  by (simp add: ex_tls_unresolved_endpoint_def example_defs model_defs)

section \<open>Decimal rendering\<close>

lemma digit_val_digit_char: "d < 10 \<Longrightarrow> digit_val (digit_char d) = d"
proof -
  assume "d < 10"
  then have "d \<in> {0, 1, 2, 3, 4, 5, 6, 7, 8, 9}" by auto
  then show ?thesis
    by (auto simp: digit_val_def digit_char_def)
qed

lemma digits_to_nat_snoc: "digits_to_nat (xs @ [c]) = 10 * digits_to_nat xs + digit_val c"
  by (simp add: digits_to_nat_def)

lemma digits_to_nat_show_nat: "digits_to_nat (show_nat n) = n"
proof (induction n rule: show_nat.induct)
  case (1 n)
  show ?case
  proof (cases "n < 10")
    case True
    then show ?thesis
      by (simp add: show_nat_digit digits_to_nat_def digit_val_digit_char)
  next
    case False
    with 1 show ?thesis
      by (simp add: show_nat_step digits_to_nat_snoc digit_val_digit_char)
  qed
qed

lemma show_nat_inj: "show_nat a = show_nat b \<Longrightarrow> a = b"
  by (metis digits_to_nat_show_nat)

lemma make_job_name_inj:
  "n \<noteq> 1 \<Longrightarrow> make_job_name name i n = make_job_name name j n \<Longrightarrow> i = j"
  by (simp add: make_job_name_def show_nat_inj)

section \<open>What the loops change\<close>

lemma build_scrape_job_None:
  "resolve_port ep svc = None \<Longrightarrow>
     build_scrape_job name idx n ep svc cn c = (None, warn (UnresolvedPort name (port_token ep)) c)"
  by (simp add: build_scrape_job_def)

lemma build_tls_config_ctx:
  "\<exists>ws. snd (build_tls_config ep name c) = c\<lparr>warnings := warnings c @ ws\<rparr>
        \<and> NoResolvable \<notin> set ws"
proof (cases "get_or (ep_ca_name ep) [] \<noteq> [] \<and> get_or (ep_ca_name ep) [] \<notin> configmaps c")
  case True
  then have "snd (build_tls_config ep name c)
               = c\<lparr>warnings := warnings c @ [CaNotFound name (get_or (ep_ca_name ep) [])]\<rparr>
             \<and> NoResolvable \<notin> set [CaNotFound name (get_or (ep_ca_name ep) [])]"
    by (simp add: build_tls_config_def warn_def Let_def)
  then show ?thesis by blast
next
  case False
  then have "snd (build_tls_config ep name c) = c\<lparr>warnings := warnings c @ []\<rparr>
             \<and> NoResolvable \<notin> set []"
    by (auto simp: build_tls_config_def Let_def)
  then show ?thesis by blast
qed

lemma build_scrape_job_Some:
  assumes "resolve_port ep svc = Some p"
  shows "\<exists>job cas ws. build_scrape_job name idx n ep svc cn c
                     = (Some (job, cas), c\<lparr>warnings := warnings c @ ws\<rparr>)
       \<and> job_name job = make_job_name name idx n \<and> NoResolvable \<notin> set ws"
proof (cases "get_or (ep_scheme ep) ''http'' = ''https''")
  case True
  obtain ws where w: "snd (build_tls_config ep name c) = c\<lparr>warnings := warnings c @ ws\<rparr>"
    and nr: "NoResolvable \<notin> set ws"
    using build_tls_config_ctx by blast
  obtain tls cas c1 where b: "build_tls_config ep name c = ((tls, cas), c1)"
    by (metis prod.exhaust)
  with w have c1: "c1 = c\<lparr>warnings := warnings c @ ws\<rparr>" by simp
  from assms True b have
    "\<exists>job. build_scrape_job name idx n ep svc cn c = (Some (job, cas), c1)
       \<and> job_name job = make_job_name name idx n"
    by (simp add: build_scrape_job_def Let_def)
  with c1 nr show ?thesis by blast
next
  case False
  with assms have
    "\<exists>job. build_scrape_job name idx n ep svc cn c
              = (Some (job, []), c\<lparr>warnings := warnings c @ []\<rparr>)
       \<and> job_name job = make_job_name name idx n \<and> NoResolvable \<notin> set []"
    by (simp add: build_scrape_job_def Let_def)
  then show ?thesis by blast
qed

lemma process_endpoints_names:
  "process_endpoints name n svc cn ies (jobs, mounts, c) = (jobs', mounts', c') \<Longrightarrow>
     map job_name jobs' = map job_name jobs @
       map (\<lambda>ie. make_job_name name (fst ie) n)
         (filter (\<lambda>ie. resolve_port (snd ie) svc \<noteq> None) ies)"
proof (induction ies arbitrary: jobs mounts c)
  case Nil
  then show ?case by simp
next
  case (Cons ie ies)
  show ?case
  proof (cases "resolve_port (snd ie) svc")
    case None
    with Cons.prems have
      "process_endpoints name n svc cn ies
         (jobs, mounts, warn (UnresolvedPort name (port_token (snd ie))) c) = (jobs', mounts', c')"
      by (simp add: build_scrape_job_None)
    from Cons.IH [OF this] None show ?thesis by simp
  next
    case (Some p)
    from build_scrape_job_Some [OF Some, of name "fst ie" n cn c]
    obtain job cas ws where
      b: "build_scrape_job name (fst ie) n (snd ie) svc cn c
            = (Some (job, cas), c\<lparr>warnings := warnings c @ ws\<rparr>)"
      and jn: "job_name job = make_job_name name (fst ie) n"
      by blast
    with Cons.prems have
      "process_endpoints name n svc cn ies
         (jobs @ [job], mounts @ cas, c\<lparr>warnings := warnings c @ ws\<rparr>) = (jobs', mounts', c')"
      by simp
    from Cons.IH [OF this] Some jn show ?thesis by simp
  qed
qed

lemma process_endpoints_prefix:
  "process_endpoints name n svc cn ies (jobs, mounts, c) = (jobs', mounts', c') \<Longrightarrow>
     \<exists>js ms ws. jobs' = jobs @ js \<and> mounts' = mounts @ ms
        \<and> c' = c\<lparr>warnings := warnings c @ ws\<rparr> \<and> NoResolvable \<notin> set ws"
proof (induction ies arbitrary: jobs mounts c)
  case Nil
  then have "jobs' = jobs @ [] \<and> mounts' = mounts @ []
        \<and> c' = c\<lparr>warnings := warnings c @ []\<rparr> \<and> NoResolvable \<notin> set []"
    by simp
  then show ?case by blast
next
  case (Cons ie ies)
  show ?case
  proof (cases "resolve_port (snd ie) svc")
    case None
    with Cons.prems have
      "process_endpoints name n svc cn ies
         (jobs, mounts, warn (UnresolvedPort name (port_token (snd ie))) c) = (jobs', mounts', c')"
      by (simp add: build_scrape_job_None)
    from Cons.IH [OF this] obtain js ms ws where
      "jobs' = jobs @ js" "mounts' = mounts @ ms"
      "c' = (warn (UnresolvedPort name (port_token (snd ie))) c)
              \<lparr>warnings := warnings (warn (UnresolvedPort name (port_token (snd ie))) c) @ ws\<rparr>"
      "NoResolvable \<notin> set ws"
      by blast
    then have "jobs' = jobs @ js \<and> mounts' = mounts @ ms
        \<and> c' = c\<lparr>warnings := warnings c @ (UnresolvedPort name (port_token (snd ie)) # ws)\<rparr>
        \<and> NoResolvable \<notin> set (UnresolvedPort name (port_token (snd ie)) # ws)"
      by (simp add: warn_def)
    then show ?thesis by blast
  next
    case (Some p)
    from build_scrape_job_Some [OF Some, of name "fst ie" n cn c]
    obtain job cas ws where
      b: "build_scrape_job name (fst ie) n (snd ie) svc cn c
            = (Some (job, cas), c\<lparr>warnings := warnings c @ ws\<rparr>)"
      and nr: "NoResolvable \<notin> set ws"
      by blast
    with Cons.prems have
      "process_endpoints name n svc cn ies
         (jobs @ [job], mounts @ cas, c\<lparr>warnings := warnings c @ ws\<rparr>) = (jobs', mounts', c')"
      by simp
    from Cons.IH [OF this] obtain js ms ws' where
      "jobs' = (jobs @ [job]) @ js" "mounts' = (mounts @ cas) @ ms"
      "c' = (c\<lparr>warnings := warnings c @ ws\<rparr>)
              \<lparr>warnings := warnings (c\<lparr>warnings := warnings c @ ws\<rparr>) @ ws'\<rparr>"
      "NoResolvable \<notin> set ws'"
      by blast
    with nr have "jobs' = jobs @ (job # js) \<and> mounts' = mounts @ (cas @ ms)
        \<and> c' = c\<lparr>warnings := warnings c @ (ws @ ws')\<rparr> \<and> NoResolvable \<notin> set (ws @ ws')"
      by simp
    then show ?thesis by blast
  qed
qed

lemma scrape_monitor_prefix:
  assumes "scrape_monitor fnm exclude m name svc cn (jobs, mounts, c) = (jobs', mounts', c')"
  shows "\<exists>js ms ws. jobs' = jobs @ js \<and> mounts' = mounts @ ms
        \<and> c' = c\<lparr>warnings := warnings c @ ws\<rparr> \<and> NoResolvable \<notin> set ws"
proof (cases "is_excluded fnm cn exclude")
  case True
  with assms have "jobs' = jobs @ [] \<and> mounts' = mounts @ []
        \<and> c' = c\<lparr>warnings := warnings c @ []\<rparr> \<and> NoResolvable \<notin> set []"
    by (simp add: scrape_monitor_def)
  then show ?thesis by blast
next
  case False
  with assms have
    "process_endpoints name (length (endpoints m)) svc cn (enumerate 0 (endpoints m))
       (jobs, mounts, c) = (jobs', mounts', c')"
    by (simp add: scrape_monitor_def)
  then show ?thesis by (rule process_endpoints_prefix)
qed

lemma process_monitor_prefix:
  assumes "process_monitor fnm exclude m (jobs, mounts, c) = (jobs', mounts', c')"
  shows "\<exists>js ms ws. jobs' = jobs @ js \<and> mounts' = mounts @ ms
        \<and> c' = c\<lparr>warnings := warnings c @ ws\<rparr> \<and> NoResolvable \<notin> set ws"
proof -
  let ?name = "get_or (meta_name m) ''?''"
  let ?ml = "match_labels m"
  consider (empty) "?ml = []"
    | (label) svc where "?ml \<noteq> []" "find_service ?ml c = Some svc"
    | (nomatch) "?ml \<noteq> []" "find_service ?ml c = None" "fallback_by_name ?name ?ml c = None"
    | (fallback) cn where "?ml \<noteq> []" "find_service ?ml c = None"
        "fallback_by_name ?name ?ml c = Some cn"
    by (cases "find_service ?ml c"; cases "fallback_by_name ?name ?ml c") auto
  then show ?thesis
  proof cases
    case empty
    with assms have "jobs' = jobs @ [] \<and> mounts' = mounts @ []
        \<and> c' = c\<lparr>warnings := warnings c @ [NoSelector ?name]\<rparr>
        \<and> NoResolvable \<notin> set [NoSelector ?name]"
      by (simp add: process_monitor_def Let_def warn_def)
    then show ?thesis by blast
  next
    case (label svc)
    with assms have
      "scrape_monitor fnm exclude m ?name (Some svc) (alias_get (alias_map c) (svc_name svc))
         (jobs, mounts, c) = (jobs', mounts', c')"
      by (simp add: process_monitor_def Let_def)
    then show ?thesis by (rule scrape_monitor_prefix)
  next
    case nomatch
    with assms have "jobs' = jobs @ [] \<and> mounts' = mounts @ []
        \<and> c' = c\<lparr>warnings := warnings c @ [NoServiceMatch ?name ?ml]\<rparr>
        \<and> NoResolvable \<notin> set [NoServiceMatch ?name ?ml]"
      by (simp add: process_monitor_def Let_def warn_def)
    then show ?thesis by blast
  next
    case (fallback cn)
    with assms have
      "scrape_monitor fnm exclude m ?name None cn (jobs, mounts, c) = (jobs', mounts', c')"
      by (simp add: process_monitor_def Let_def)
    then show ?thesis by (rule scrape_monitor_prefix)
  qed
qed

lemma process_monitors_prefix:
  "process_monitors fnm exclude ms (jobs, mounts, c) = (jobs', mounts', c') \<Longrightarrow>
   \<exists>js mts ws. jobs' = jobs @ js \<and> mounts' = mounts @ mts
        \<and> c' = c\<lparr>warnings := warnings c @ ws\<rparr> \<and> NoResolvable \<notin> set ws"
proof (induction ms arbitrary: jobs mounts c)
  case Nil
  then have "jobs' = jobs @ [] \<and> mounts' = mounts @ []
        \<and> c' = c\<lparr>warnings := warnings c @ []\<rparr> \<and> NoResolvable \<notin> set []"
    by simp
  then show ?case by blast
next
  case (Cons m ms)
  obtain j1 m1 c1 where s: "process_monitor fnm exclude m (jobs, mounts, c) = (j1, m1, c1)"
    by (metis prod_cases3)
  from process_monitor_prefix [OF s] obtain js mts ws where
    a: "j1 = jobs @ js" "m1 = mounts @ mts" "c1 = c\<lparr>warnings := warnings c @ ws\<rparr>"
       "NoResolvable \<notin> set ws"
    by blast
  from Cons.prems s have "process_monitors fnm exclude ms (j1, m1, c1) = (jobs', mounts', c')"
    by simp
  from Cons.IH [OF this] obtain js' mts' ws' where
    b: "jobs' = j1 @ js'" "mounts' = m1 @ mts'" "c' = c1\<lparr>warnings := warnings c1 @ ws'\<rparr>"
       "NoResolvable \<notin> set ws'"
    by blast
  from a b have "jobs' = jobs @ (js @ js') \<and> mounts' = mounts @ (mts @ mts')
        \<and> c' = c\<lparr>warnings := warnings c @ (ws @ ws')\<rparr> \<and> NoResolvable \<notin> set (ws @ ws')"
    by simp
  then show ?case by blast
qed

section \<open>Runs without scrape jobs\<close>

text \<open>
  Claim C3, as amended. A run over a non-empty manifest list that yields no scrape job
  appends, after the warnings of the single monitors, exactly one warning that no
  ServiceMonitor is resolvable, writes no file, registers no artifact and returns no
  service. A run over the empty manifest list returns at once: no service, and the
  context, warnings included, is unchanged.
\<close>

theorem zero_jobs_no_service:
  "(manifests \<noteq> []
      \<and> fst (process_monitors fnm (config_exclude c) manifests ([], [], c)) = [] \<longrightarrow>
      (\<exists>ws. process_servicemonitors fnm spec manifests c
               = ([], c\<lparr>warnings := warnings c @ ws @ [NoResolvable]\<rparr>)
           \<and> NoResolvable \<notin> set ws)
      \<and> files (snd (process_servicemonitors fnm spec manifests c)) = files c
      \<and> generated_cms (snd (process_servicemonitors fnm spec manifests c)) = generated_cms c)
   \<and> process_servicemonitors fnm spec [] c = ([], c)"
proof -
  have e: "process_servicemonitors fnm spec [] c = ([], c)"
    by (simp add: process_servicemonitors_def)
  have "\<exists>ws. process_servicemonitors fnm spec manifests c
               = ([], c\<lparr>warnings := warnings c @ ws @ [NoResolvable]\<rparr>)
           \<and> NoResolvable \<notin> set ws"
    if ne: "manifests \<noteq> []"
      and z: "fst (process_monitors fnm (config_exclude c) manifests ([], [], c)) = []"
  proof -
    obtain js ms c1 where
      p: "process_monitors fnm (config_exclude c) manifests ([], [], c) = (js, ms, c1)"
      by (metis prod_cases3)
    with z have j: "js = []" by simp
    from process_monitors_prefix [OF p] obtain ws where
      w: "c1 = c\<lparr>warnings := warnings c @ ws\<rparr>" "NoResolvable \<notin> set ws"
      by blast
    from ne p j w have "process_servicemonitors fnm spec manifests c
               = ([], c\<lparr>warnings := warnings c @ ws @ [NoResolvable]\<rparr>)"
      by (simp add: process_servicemonitors_def warn_def)
    with w show ?thesis by blast
  qed
  then have "manifests \<noteq> []
      \<and> fst (process_monitors fnm (config_exclude c) manifests ([], [], c)) = [] \<longrightarrow>
      (\<exists>ws. process_servicemonitors fnm spec manifests c
               = ([], c\<lparr>warnings := warnings c @ ws @ [NoResolvable]\<rparr>)
           \<and> NoResolvable \<notin> set ws)
      \<and> files (snd (process_servicemonitors fnm spec manifests c)) = files c
      \<and> generated_cms (snd (process_servicemonitors fnm spec manifests c)) = generated_cms c"
    by fastforce
  with e show ?thesis by blast
qed

theorem zero_jobs_no_service_witness:
  "process_servicemonitors glob_eq (Some ex_spec) [ex_ghost_monitor] ex_ctx
     = ([], ex_ctx\<lparr>warnings := [NoServiceMatch ''ghost'' [(''app'', ''ghost'')], NoResolvable]\<rparr>)"
proof -
  have a: "[ex_ghost_monitor] \<noteq> []
      \<and> fst (process_monitors glob_eq (config_exclude ex_ctx) [ex_ghost_monitor] ([], [], ex_ctx)) = []"
    by (simp add: example_defs model_defs)
  have b: "process_servicemonitors glob_eq (Some ex_spec) [ex_ghost_monitor] ex_ctx
     = ([], ex_ctx\<lparr>warnings := [NoServiceMatch ''ghost'' [(''app'', ''ghost'')], NoResolvable]\<rparr>)"
    by (simp add: process_servicemonitors_def example_defs model_defs)
  from zero_jobs_no_service [of "[ex_ghost_monitor]" glob_eq ex_ctx "Some ex_spec"] a b
  show ?thesis by simp
qed

text \<open>
  Claim C3 as stated fails on the empty manifest list: the run yields no scrape job and
  appends no warning.
\<close>

theorem empty_manifests_no_warning:
  "fst (process_monitors glob_eq (config_exclude ex_ctx) [] ([], [], ex_ctx)) = []
   \<and> process_servicemonitors glob_eq None [] ex_ctx = ([], ex_ctx)
   \<and> warnings (snd (process_servicemonitors glob_eq None [] ex_ctx)) = warnings ex_ctx
   \<and> NoResolvable \<notin> set (warnings (snd (process_servicemonitors glob_eq None [] ex_ctx)))"
  by (simp add: process_servicemonitors_def ex_ctx_def)

section \<open>Job names\<close>

lemma distinct_short: "length xs \<le> 1 \<Longrightarrow> distinct xs"
  by (cases xs) auto

lemma endpoint_names_distinct:
  "distinct (map (\<lambda>ie. make_job_name name (fst ie) (length eps))
      (filter P (enumerate 0 eps)))"
proof (cases "length eps = 1")
  case True
  have "length (filter P (enumerate 0 eps)) \<le> length (enumerate 0 eps)"
    by (rule length_filter_le)
  with True have "length (map (\<lambda>ie. make_job_name name (fst ie) (length eps))
      (filter P (enumerate 0 eps))) \<le> 1"
    by simp
  then show ?thesis by (rule distinct_short)
next
  case False
  have d: "distinct (map fst (filter P (enumerate 0 eps)))"
    by (rule distinct_map_filter) simp
  have i: "inj_on (\<lambda>i. make_job_name name i (length eps)) (set (map fst (filter P (enumerate 0 eps))))"
    using False by (intro inj_onI) (metis make_job_name_inj)
  have "distinct (map (\<lambda>i. make_job_name name i (length eps))
          (map fst (filter P (enumerate 0 eps))))"
    using d i by (simp only: distinct_map)
  then show ?thesis by (simp add: comp_def)
qed

lemma scrape_monitor_names:
  assumes "\<not> is_excluded fnm cn exclude"
    and "scrape_monitor fnm exclude m name svc cn (jobs, mounts, c) = (jobs', mounts', c')"
  shows "\<exists>new. jobs' = jobs @ new
      \<and> map job_name new =
          map (\<lambda>ie. make_job_name name (fst ie) (length (endpoints m)))
            (filter (\<lambda>ie. resolve_port (snd ie) svc \<noteq> None) (enumerate 0 (endpoints m)))"
proof -
  from assms have p:
    "process_endpoints name (length (endpoints m)) svc cn (enumerate 0 (endpoints m))
       (jobs, mounts, c) = (jobs', mounts', c')"
    by (simp add: scrape_monitor_def)
  from process_endpoints_prefix [OF p] obtain new where n: "jobs' = jobs @ new"
    by blast
  from process_endpoints_names [OF p] n have
    "map job_name new =
          map (\<lambda>ie. make_job_name name (fst ie) (length (endpoints m)))
            (filter (\<lambda>ie. resolve_port (snd ie) svc \<noteq> None) (enumerate 0 (endpoints m)))"
    by simp
  with n show ?thesis by blast
qed

lemma scrape_monitor_new_names:
  assumes "scrape_monitor fnm exclude m name svc cn (jobs, mounts, c) = (jobs', mounts', c')"
  shows "\<exists>new. jobs' = jobs @ new \<and> distinct (map job_name new)
      \<and> (\<forall>j \<in> set new. \<exists>i < length (endpoints m).
            job_name j = make_job_name name i (length (endpoints m)))"
proof (cases "is_excluded fnm cn exclude")
  case True
  with assms have "jobs' = jobs @ [] \<and> distinct (map job_name [])
      \<and> (\<forall>j \<in> set []. \<exists>i < length (endpoints m).
            job_name j = make_job_name name i (length (endpoints m)))"
    by (simp add: scrape_monitor_def)
  then show ?thesis by blast
next
  case False
  from scrape_monitor_names [OF False assms] obtain new where
    n: "jobs' = jobs @ new"
    and m: "map job_name new =
          map (\<lambda>ie. make_job_name name (fst ie) (length (endpoints m)))
            (filter (\<lambda>ie. resolve_port (snd ie) svc \<noteq> None) (enumerate 0 (endpoints m)))"
    by blast
  from m have d: "distinct (map job_name new)"
    by (simp add: endpoint_names_distinct)
  have "\<exists>i < length (endpoints m). job_name j = make_job_name name i (length (endpoints m))"
    if "j \<in> set new" for j
  proof -
    from that have "job_name j \<in> set (map job_name new)" by simp
    with m obtain ie where "ie \<in> set (enumerate 0 (endpoints m))"
      and e: "job_name j = make_job_name name (fst ie) (length (endpoints m))"
      by auto
    then have "fst ie < length (endpoints m)"
      by (simp add: in_set_enumerate_eq)
    with e show ?thesis by blast
  qed
  with n d show ?thesis by blast
qed

text \<open>
  Claim C7, as amended. A monitor with exactly one endpoint names its job after itself; a
  monitor with another number of endpoints names the job of the endpoint at zero-based
  index \<open>i\<close> by its own name, a hyphen and \<open>i\<close>. The jobs emitted are those of the endpoints
  whose port resolves, in order, and the names emitted for one monitor are pairwise
  distinct. Nothing is said about names of different monitors.
\<close>

theorem job_names_within_monitor:
  "(\<not> is_excluded fnm cn exclude
      \<and> scrape_monitor fnm exclude m name svc cn (jobs, mounts, c) = (jobs', mounts', c') \<longrightarrow>
      (\<exists>new. jobs' = jobs @ new
         \<and> map job_name new =
             map (\<lambda>ie. if length (endpoints m) = 1 then name
                        else name @ ''-'' @ show_nat (fst ie))
               (filter (\<lambda>ie. resolve_port (snd ie) svc \<noteq> None) (enumerate 0 (endpoints m)))
         \<and> distinct (map job_name new)))
   \<and> (process_monitor fnm exclude m (jobs, mounts, c) = (jobs2, mounts2, c2) \<longrightarrow>
      (\<exists>new. jobs2 = jobs @ new \<and> distinct (map job_name new)
         \<and> (\<forall>j \<in> set new. \<exists>i < length (endpoints m).
               job_name j = (if length (endpoints m) = 1 then get_or (meta_name m) ''?''
                             else get_or (meta_name m) ''?'' @ ''-'' @ show_nat i))))"
proof -
  have a: "\<exists>new. jobs' = jobs @ new
         \<and> map job_name new =
             map (\<lambda>ie. if length (endpoints m) = 1 then name
                        else name @ ''-'' @ show_nat (fst ie))
               (filter (\<lambda>ie. resolve_port (snd ie) svc \<noteq> None) (enumerate 0 (endpoints m)))
         \<and> distinct (map job_name new)"
    if x: "\<not> is_excluded fnm cn exclude"
      and s: "scrape_monitor fnm exclude m name svc cn (jobs, mounts, c) = (jobs', mounts', c')"
  proof -
    from scrape_monitor_names [OF x s] obtain new where
      n: "jobs' = jobs @ new"
      and m: "map job_name new =
          map (\<lambda>ie. make_job_name name (fst ie) (length (endpoints m)))
            (filter (\<lambda>ie. resolve_port (snd ie) svc \<noteq> None) (enumerate 0 (endpoints m)))"
      by blast
    from m have d: "distinct (map job_name new)"
      by (simp add: endpoint_names_distinct)
    from m have "map job_name new =
             map (\<lambda>ie. if length (endpoints m) = 1 then name
                        else name @ ''-'' @ show_nat (fst ie))
               (filter (\<lambda>ie. resolve_port (snd ie) svc \<noteq> None) (enumerate 0 (endpoints m)))"
      by (simp add: make_job_name_def)
    with n d show ?thesis by blast
  qed
  have b: "\<exists>new. jobs2 = jobs @ new \<and> distinct (map job_name new)
         \<and> (\<forall>j \<in> set new. \<exists>i < length (endpoints m).
               job_name j = (if length (endpoints m) = 1 then get_or (meta_name m) ''?''
                             else get_or (meta_name m) ''?'' @ ''-'' @ show_nat i))"
    if p: "process_monitor fnm exclude m (jobs, mounts, c) = (jobs2, mounts2, c2)"
  proof -
    let ?name = "get_or (meta_name m) ''?''"
    have "(jobs2 = jobs) \<or> (\<exists>svc cn.
        scrape_monitor fnm exclude m ?name svc cn (jobs, mounts, c) = (jobs2, mounts2, c2))"
      using p by (auto simp: process_monitor_def Let_def split: if_splits option.splits)
    then show ?thesis
    proof
      assume "jobs2 = jobs"
      then have "jobs2 = jobs @ [] \<and> distinct (map job_name [])
         \<and> (\<forall>j \<in> set []. \<exists>i < length (endpoints m).
               job_name j = (if length (endpoints m) = 1 then ?name
                             else ?name @ ''-'' @ show_nat i))"
        by simp
      then show ?thesis by blast
    next
      assume "\<exists>svc cn.
        scrape_monitor fnm exclude m ?name svc cn (jobs, mounts, c) = (jobs2, mounts2, c2)"
      then obtain svc cn where
        "scrape_monitor fnm exclude m ?name svc cn (jobs, mounts, c) = (jobs2, mounts2, c2)"
        by blast
      from scrape_monitor_new_names [OF this] show ?thesis
        by (simp add: make_job_name_def)
    qed
  qed
  from a b show ?thesis by blast
qed


theorem job_names_within_monitor_witness:
  "map job_name (fst (process_monitor glob_eq [] ex_two_endpoint_monitor ([], [], ex_ctx)))
     = [''api-0'', ''api-1'']
   \<and> map job_name (fst (process_monitor glob_eq [] ex_monitor ([], [], ex_ctx))) = [''api'']"
proof -
  have a: "\<not> is_excluded glob_eq ''api'' []"
    by (simp add: is_excluded_def)
  obtain j2 m2 c2 where
    s2: "scrape_monitor glob_eq [] ex_two_endpoint_monitor ''api'' (Some ex_api_svc) ''api''
          ([], [], ex_ctx) = (j2, m2, c2)"
    by (metis prod_cases3)
  obtain j1 m1 c1 where
    s1: "scrape_monitor glob_eq [] ex_monitor ''api'' (Some ex_api_svc) ''api''
          ([], [], ex_ctx) = (j1, m1, c1)"
    by (metis prod_cases3)
  have p2: "process_monitor glob_eq [] ex_two_endpoint_monitor ([], [], ex_ctx)
          = scrape_monitor glob_eq [] ex_two_endpoint_monitor ''api'' (Some ex_api_svc) ''api''
              ([], [], ex_ctx)"
    by (simp add: process_monitor_def find_service_def alias_get_def get_or_def Let_def
        ex_two_endpoint_monitor_def ex_ctx_def ex_api_svc_def)
  have p1: "process_monitor glob_eq [] ex_monitor ([], [], ex_ctx)
          = scrape_monitor glob_eq [] ex_monitor ''api'' (Some ex_api_svc) ''api''
              ([], [], ex_ctx)"
    by (simp add: process_monitor_def find_service_def alias_get_def get_or_def Let_def
        ex_monitor_def ex_ctx_def ex_api_svc_def)
  have r: "resolve_port ex_endpoint (Some ex_api_svc) = Some (PInt 8080)"
    by (simp add: example_defs model_defs)
  from job_names_within_monitor
    [of glob_eq "''api''" "[]" ex_two_endpoint_monitor "''api''" "Some ex_api_svc" "[]" "[]"
        ex_ctx j2 m2 c2, THEN conjunct1] a s2
  have "map job_name j2 = [''api-0'', ''api-1'']"
    by (auto simp: ex_two_endpoint_monitor_def r show_nat_digit digit_char_def)
  moreover
  from job_names_within_monitor
    [of glob_eq "''api''" "[]" ex_monitor "''api''" "Some ex_api_svc" "[]" "[]"
        ex_ctx j1 m1 c1, THEN conjunct1] a s1
  have "map job_name j1 = [''api'']"
    by (auto simp: ex_monitor_def r)
  ultimately show ?thesis
    using p1 p2 s1 s2 by simp
qed

text \<open>
  Claim C7 as stated fails across monitors: the monitor \<open>api\<close> with two endpoints and the
  monitor \<open>api-0\<close> with one endpoint both emit a job named \<open>api-0\<close> in the same run.
\<close>

theorem job_names_collide_across_monitors:
  "map job_name
     (fst (process_monitors glob_eq [] [ex_two_endpoint_monitor, ex_suffix_monitor]
        ([], [], ex_ctx)))
     = [''api-0'', ''api-1'', ''api-0'']
   \<and> \<not> distinct (map job_name
        (fst (process_monitors glob_eq [] [ex_two_endpoint_monitor, ex_suffix_monitor]
           ([], [], ex_ctx))))"
proof -
  have "map job_name
     (fst (process_monitors glob_eq [] [ex_two_endpoint_monitor, ex_suffix_monitor]
        ([], [], ex_ctx)))
     = [''api-0'', ''api-1'', ''api-0'']"
    by (simp add: example_defs model_defs show_nat_8080 show_nat_digit)
  then show ?thesis by simp
qed

section \<open>Implicit port with a named target port\<close>

text \<open>
  An endpoint whose port does not resolve is skipped with its warning and the loop goes on
  with the remaining endpoints; a port given explicitly resolves to a number or not at
  all.
\<close>

lemma named_port_numeric:
  "named_port port_ref ports = Some p \<Longrightarrow> \<exists>i. p = PInt i"
  by (induction ports) (auto split: if_splits option.splits pval.splits)

lemma explicit_port_numeric:
  "port_truthy (ep_port ep) \<Longrightarrow> resolve_port ep svc = Some p \<Longrightarrow> \<exists>i. p = PInt i"
  by (auto simp: resolve_port_def split: if_splits option.splits pval.splits
      dest: named_port_numeric)

lemma unresolved_port_skips_endpoint:
  "resolve_port (snd ie) svc = None \<Longrightarrow>
     process_endpoints name n svc cn (ie # rest) (jobs, mounts, c)
       = process_endpoints name n svc cn rest
           (jobs, mounts, warn (UnresolvedPort name (port_token (snd ie))) c)"
  by (simp add: build_scrape_job_None)

text \<open>
  Claim C2 says that an endpoint whose port cannot be mapped to a number is skipped with a
  warning and that no emitted job carries a non-numeric port. The code at an endpoint
  without a port, matched to a service whose first port has the target port \<open>metrics\<close>:
  the port resolves to the string \<open>metrics\<close>, the job is emitted with the target
  \<open>web.prod.svc.cluster.local:metrics\<close> and no warning, and the written document carries
  this target. The same service port asked for by name resolves to nothing, since that
  path returns a target port only when it is numeric.
\<close>

theorem implicit_port_named_target:
  "resolve_port ex_implicit_endpoint (Some ex_web_svc) = Some (PStr ''metrics'')
   \<and> \<not> py_isdigit ''metrics''
   \<and> build_scrape_job ''web'' 0 1 ex_implicit_endpoint (Some ex_web_svc) ''web'' ex_web_ctx
       = (Some (\<lparr>job_name = ''web'', metrics_path = ''/metrics'', scrape_interval = ''30s'',
                 scheme = ''http'', targets = [''web.prod.svc.cluster.local:metrics''],
                 tls_config = None\<rparr>, []), ex_web_ctx)
   \<and> map targets (scrape_configs (snd (hd (files (snd
        (process_servicemonitors glob_eq None [ex_web_monitor] ex_web_ctx))))))
       = [[''web.prod.svc.cluster.local:metrics'']]
   \<and> resolve_port (ex_implicit_endpoint\<lparr>ep_port := Some (PStr ''metrics'')\<rparr>) (Some ex_web_svc)
       = None"
  by (simp add: process_servicemonitors_def write_scrape_config_def render_prometheus_yml_def
      build_prometheus_service_def register_prometheus_def find_prometheus_k8s_service_def
      example_defs model_defs)

section \<open>CA mounts of a run\<close>

lemma ca_mount_line_not_config_mount: "ca_mount_line n k \<noteq> scrape_config_mount"
proof
  assume eq: "ca_mount_line n k = scrape_config_mount"
  let ?X = "n @ ''/'' @ k"
  let ?Y = "'':/etc/prometheus/ca/'' @ ?X @ '':ro''"
  let ?R = "''prometheus-scrape-config/prometheus.yml:/etc/prometheus/prometheus.yml:ro''"
  from eq have e: "?X @ ?Y = ?R"
    by (simp add: ca_mount_line_def ca_container_path_def scrape_config_mount_def)
  then have "length (?X @ ?Y) = length ?R" by (rule arg_cong)
  then have l: "length ?X = 25" by simp
  from e have "drop (length ?X) (?X @ ?Y) = drop (length ?X) ?R" by (rule arg_cong)
  then have "?Y = drop (length ?X) ?R" by simp
  with l have "?Y = drop 25 ?R" by simp
  then show False by simp
qed

lemma build_scrape_job_known_ca:
  assumes "get_or (ep_scheme ep) ''http'' = ''https''"
    and "ep_ca_name ep = Some cm" and "cm \<noteq> []" and "cm \<in> configmaps c"
    and "resolve_port ep svc \<noteq> None"
  shows "\<exists>job. build_scrape_job name idx n ep svc cn c
           = (Some (job, [ca_mount_line cm (get_or (ep_ca_key ep) ''ca-certificates.crt'')]), c)"
  using assms
  by (auto simp: build_scrape_job_def build_tls_config_def get_or_def Let_def)

lemma process_endpoints_step:
  "\<exists>j1 m1 ws. process_endpoints name n svc cn (ie # rest) (jobs, mounts, c)
       = process_endpoints name n svc cn rest (j1, m1, c\<lparr>warnings := warnings c @ ws\<rparr>)"
proof (cases "resolve_port (snd ie) svc")
  case None
  then have "process_endpoints name n svc cn (ie # rest) (jobs, mounts, c)
       = process_endpoints name n svc cn rest
           (jobs, mounts, c\<lparr>warnings := warnings c @ [UnresolvedPort name (port_token (snd ie))]\<rparr>)"
    by (simp add: build_scrape_job_None warn_def)
  then show ?thesis by blast
next
  case (Some p)
  from build_scrape_job_Some [OF Some, of name "fst ie" n cn c]
  obtain job cas ws where
    "build_scrape_job name (fst ie) n (snd ie) svc cn c
       = (Some (job, cas), c\<lparr>warnings := warnings c @ ws\<rparr>)"
    by blast
  then have "process_endpoints name n svc cn (ie # rest) (jobs, mounts, c)
       = process_endpoints name n svc cn rest
           (jobs @ [job], mounts @ cas, c\<lparr>warnings := warnings c @ ws\<rparr>)"
    by simp
  then show ?thesis by blast
qed

lemma process_endpoints_known_ca:
  assumes "process_endpoints name n svc cn ies (jobs, mounts, c) = (jobs', mounts', c')"
    and "ie \<in> set ies"
    and "get_or (ep_scheme (snd ie)) ''http'' = ''https''"
    and "ep_ca_name (snd ie) = Some cm" and "cm \<noteq> []" and "cm \<in> configmaps c"
    and "resolve_port (snd ie) svc \<noteq> None"
  shows "ca_mount_line cm (get_or (ep_ca_key (snd ie)) ''ca-certificates.crt'') \<in> set mounts'"
  using assms(1,2,6)
proof (induction ies arbitrary: jobs mounts c)
  case Nil
  then show ?case by simp
next
  case (Cons x ies)
  show ?case
  proof (cases "x = ie")
    case True
    have cmc: "cm \<in> configmaps c" by (rule Cons.prems(3))
    from build_scrape_job_known_ca [OF assms(3) assms(4) assms(5) cmc assms(7), of name "fst ie" n cn]
    obtain job where
      "build_scrape_job name (fst ie) n (snd ie) svc cn c
           = (Some (job, [ca_mount_line cm (get_or (ep_ca_key (snd ie)) ''ca-certificates.crt'')]), c)"
      by blast
    with Cons.prems(1) True have
      "process_endpoints name n svc cn ies
         (jobs @ [job],
          mounts @ [ca_mount_line cm (get_or (ep_ca_key (snd ie)) ''ca-certificates.crt'')], c)
         = (jobs', mounts', c')"
      by simp
    from process_endpoints_prefix [OF this] show ?thesis by auto
  next
    case False
    with Cons.prems(2) have in_rest: "ie \<in> set ies" by simp
    from process_endpoints_step [of name n svc cn x ies jobs mounts c]
    obtain j1 m1 ws where
      "process_endpoints name n svc cn (x # ies) (jobs, mounts, c)
         = process_endpoints name n svc cn ies (j1, m1, c\<lparr>warnings := warnings c @ ws\<rparr>)"
      by blast
    with Cons.prems(1) have
      r: "process_endpoints name n svc cn ies (j1, m1, c\<lparr>warnings := warnings c @ ws\<rparr>)
            = (jobs', mounts', c')"
      by simp
    from Cons.prems(3) have "cm \<in> configmaps (c\<lparr>warnings := warnings c @ ws\<rparr>)" by simp
    from Cons.IH [OF r in_rest this] show ?thesis .
  qed
qed

lemma process_monitor_resolved:
  assumes "match_labels m \<noteq> []"
    and "resolved_name (get_or (meta_name m) ''?'') (match_labels m) c = Some cn"
  shows "process_monitor fnm exclude m (jobs, mounts, c)
           = scrape_monitor fnm exclude m (get_or (meta_name m) ''?'')
               (find_service (match_labels m) c) cn (jobs, mounts, c)"
  using assms
  by (auto simp: process_monitor_def resolved_name_def Let_def split: option.splits)

lemma process_monitor_known_ca:
  assumes "process_monitor fnm exclude m (jobs, mounts, c) = (jobs', mounts', c')"
    and "match_labels m \<noteq> []"
    and "resolved_name (get_or (meta_name m) ''?'') (match_labels m) c = Some cn"
    and "\<not> is_excluded fnm cn exclude"
    and "ep \<in> set (endpoints m)"
    and "get_or (ep_scheme ep) ''http'' = ''https''"
    and "ep_ca_name ep = Some cm" and "cm \<noteq> []" and "cm \<in> configmaps c"
    and "resolve_port ep (find_service (match_labels m) c) \<noteq> None"
  shows "ca_mount_line cm (get_or (ep_ca_key ep) ''ca-certificates.crt'') \<in> set mounts'"
proof -
  from assms(1) process_monitor_resolved [OF assms(2,3)] assms(4) have p:
    "process_endpoints (get_or (meta_name m) ''?'') (length (endpoints m))
       (find_service (match_labels m) c) cn (enumerate 0 (endpoints m)) (jobs, mounts, c)
       = (jobs', mounts', c')"
    by (simp add: scrape_monitor_def)
  from assms(5) have "ep \<in> snd ` set (enumerate 0 (endpoints m))"
    by (metis map_snd_enumerate set_map)
  then obtain ie where ie: "ie \<in> set (enumerate 0 (endpoints m))" and s: "snd ie = ep"
    by auto
  from process_endpoints_known_ca [OF p ie] s assms(6-10) show ?thesis by simp
qed

lemma find_service_warnings [simp]:
  "find_service ml (c\<lparr>warnings := w\<rparr>) = find_service ml c"
  by (simp add: find_service_def)

lemma resolved_name_warnings [simp]:
  "resolved_name name ml (c\<lparr>warnings := w\<rparr>) = resolved_name name ml c"
  by (simp add: resolved_name_def fallback_by_name_def known_names_def split: option.splits)

lemma process_monitors_known_ca:
  assumes "process_monitors fnm exclude ms (jobs, mounts, c) = (jobs', mounts', c')"
    and "m \<in> set ms"
    and "match_labels m \<noteq> []"
    and "resolved_name (get_or (meta_name m) ''?'') (match_labels m) c = Some cn"
    and "\<not> is_excluded fnm cn exclude"
    and "ep \<in> set (endpoints m)"
    and "get_or (ep_scheme ep) ''http'' = ''https''"
    and "ep_ca_name ep = Some cm" and "cm \<noteq> []" and "cm \<in> configmaps c"
    and "resolve_port ep (find_service (match_labels m) c) \<noteq> None"
  shows "ca_mount_line cm (get_or (ep_ca_key ep) ''ca-certificates.crt'') \<in> set mounts'"
  using assms(1,2,4,10,11)
proof (induction ms arbitrary: jobs mounts c)
  case Nil
  then show ?case by simp
next
  case (Cons x ms)
  obtain j1 m1 c1 where s: "process_monitor fnm exclude x (jobs, mounts, c) = (j1, m1, c1)"
    by (metis prod_cases3)
  from Cons.prems(1) s have r: "process_monitors fnm exclude ms (j1, m1, c1) = (jobs', mounts', c')"
    by simp
  from process_monitor_prefix [OF s] obtain ws where
    c1: "c1 = c\<lparr>warnings := warnings c @ ws\<rparr>"
    by blast
  show ?case
  proof (cases "x = m")
    case True
    with s have "process_monitor fnm exclude m (jobs, mounts, c) = (j1, m1, c1)" by simp
    from process_monitor_known_ca [OF this assms(3) Cons.prems(3) assms(5) assms(6) assms(7)
        assms(8) assms(9) Cons.prems(4) Cons.prems(5)]
    have "ca_mount_line cm (get_or (ep_ca_key ep) ''ca-certificates.crt'') \<in> set m1" .
    with process_monitors_prefix [OF r] show ?thesis by auto
  next
    case False
    with Cons.prems(2) have in_rest: "m \<in> set ms" by simp
    from Cons.prems(3) c1
    have a: "resolved_name (get_or (meta_name m) ''?'') (match_labels m) c1 = Some cn" by simp
    from Cons.prems(4) c1 have b: "cm \<in> configmaps c1" by simp
    from Cons.prems(5) c1
    have d: "resolve_port ep (find_service (match_labels m) c1) \<noteq> None" by simp
    from Cons.IH [OF r in_rest a b d] show ?thesis .
  qed
qed

lemma run_volumes:
  assumes "fst (process_monitors fnm (config_exclude c0) manifests ([], [], c0)) \<noteq> []"
  shows "\<exists>svc. fst (process_servicemonitors fnm spec manifests c0) = [(''prometheus'', svc)]
           \<and> cs_volumes svc = scrape_config_mount #
               first_seen (fst (snd (process_monitors fnm (config_exclude c0) manifests
                                       ([], [], c0))))"
proof -
  obtain js ms c1 where
    p: "process_monitors fnm (config_exclude c0) manifests ([], [], c0) = (js, ms, c1)"
    by (metis prod_cases3)
  with assms have j: "js \<noteq> []" by simp
  from assms have ne: "manifests \<noteq> []" by auto
  obtain svc c3 where b: "build_prometheus_service spec ms (write_scrape_config js c1) = (svc, c3)"
    by (metis prod.exhaust)
  from volumes_eq [of spec ms "write_scrape_config js c1"] b
  have v: "cs_volumes svc = scrape_config_mount # first_seen ms" by simp
  from ne p j b have "fst (process_servicemonitors fnm spec manifests c0) = [(''prometheus'', svc)]"
    by (simp add: process_servicemonitors_def Let_def)
  with v p show ?thesis by simp
qed

text \<open>
  Claim C9. The volume list of the service definition is the scrape-config mount followed
  by the accumulated CA mounts with duplicates removed, first occurrences kept in order.
  In a run that emits a job, the accumulated mounts are those gathered by the loop over
  the monitors, and every https endpoint of a resolved, non-excluded monitor whose port
  resolves and whose CA configmap is known has its mount line exactly once in the volume
  list, however many endpoints name the same configmap and key.
\<close>

theorem volumes_config_mount_then_first_seen:
  "cs_volumes (fst (build_prometheus_service spec ca_mounts c))
     = scrape_config_mount # first_seen ca_mounts
   \<and> distinct (first_seen ca_mounts)
   \<and> set (first_seen ca_mounts) = set ca_mounts
   \<and> (\<forall>m \<in> set ca_mounts. count_list (first_seen ca_mounts) m = 1)
   \<and> (fst (process_monitors fnm (config_exclude c0) manifests ([], [], c0)) \<noteq> [] \<longrightarrow>
        (\<exists>svc. fst (process_servicemonitors fnm spec manifests c0) = [(''prometheus'', svc)]
           \<and> cs_volumes svc = scrape_config_mount #
               first_seen (fst (snd (process_monitors fnm (config_exclude c0) manifests
                                       ([], [], c0))))
           \<and> (mon \<in> set manifests \<and> match_labels mon \<noteq> []
                \<and> resolved_name (get_or (meta_name mon) ''?'') (match_labels mon) c0 = Some cn
                \<and> \<not> is_excluded fnm cn (config_exclude c0)
                \<and> ep \<in> set (endpoints mon)
                \<and> get_or (ep_scheme ep) ''http'' = ''https''
                \<and> ep_ca_name ep = Some cm \<and> cm \<noteq> [] \<and> cm \<in> configmaps c0
                \<and> resolve_port ep (find_service (match_labels mon) c0) \<noteq> None
              \<longrightarrow> count_list (cs_volumes svc)
                    (ca_mount_line cm (get_or (ep_ca_key ep) ''ca-certificates.crt'')) = 1)))"
proof -
  have first: "cs_volumes (fst (build_prometheus_service spec ca_mounts c))
     = scrape_config_mount # first_seen ca_mounts
   \<and> distinct (first_seen ca_mounts)
   \<and> set (first_seen ca_mounts) = set ca_mounts
   \<and> (\<forall>m \<in> set ca_mounts. count_list (first_seen ca_mounts) m = 1)"
    by (simp add: volumes_eq distinct_first_seen set_first_seen count_list_distinct)
  have second: "\<exists>svc. fst (process_servicemonitors fnm spec manifests c0) = [(''prometheus'', svc)]
           \<and> cs_volumes svc = scrape_config_mount #
               first_seen (fst (snd (process_monitors fnm (config_exclude c0) manifests
                                       ([], [], c0))))
           \<and> (mon \<in> set manifests \<and> match_labels mon \<noteq> []
                \<and> resolved_name (get_or (meta_name mon) ''?'') (match_labels mon) c0 = Some cn
                \<and> \<not> is_excluded fnm cn (config_exclude c0)
                \<and> ep \<in> set (endpoints mon)
                \<and> get_or (ep_scheme ep) ''http'' = ''https''
                \<and> ep_ca_name ep = Some cm \<and> cm \<noteq> [] \<and> cm \<in> configmaps c0
                \<and> resolve_port ep (find_service (match_labels mon) c0) \<noteq> None
              \<longrightarrow> count_list (cs_volumes svc)
                    (ca_mount_line cm (get_or (ep_ca_key ep) ''ca-certificates.crt'')) = 1)"
    if jobs: "fst (process_monitors fnm (config_exclude c0) manifests ([], [], c0)) \<noteq> []"
  proof -
    let ?line = "ca_mount_line cm (get_or (ep_ca_key ep) ''ca-certificates.crt'')"
    obtain js ms c1 where
      p: "process_monitors fnm (config_exclude c0) manifests ([], [], c0) = (js, ms, c1)"
      by (metis prod_cases3)
    from run_volumes [OF jobs, of spec] p obtain svc where
      r: "fst (process_servicemonitors fnm spec manifests c0) = [(''prometheus'', svc)]"
      and v: "cs_volumes svc = scrape_config_mount # first_seen ms"
      by auto
    have "count_list (cs_volumes svc) ?line = 1"
      if h: "mon \<in> set manifests" "match_labels mon \<noteq> []"
        "resolved_name (get_or (meta_name mon) ''?'') (match_labels mon) c0 = Some cn"
        "\<not> is_excluded fnm cn (config_exclude c0)"
        "ep \<in> set (endpoints mon)"
        "get_or (ep_scheme ep) ''http'' = ''https''"
        "ep_ca_name ep = Some cm" "cm \<noteq> []" "cm \<in> configmaps c0"
        "resolve_port ep (find_service (match_labels mon) c0) \<noteq> None"
    proof -
      from process_monitors_known_ca [OF p h] have "?line \<in> set ms" .
      then have "count_list (first_seen ms) ?line = 1"
        by (simp add: count_list_distinct distinct_first_seen set_first_seen)
      moreover have "scrape_config_mount \<noteq> ?line"
        using ca_mount_line_not_config_mount [of cm "get_or (ep_ca_key ep) ''ca-certificates.crt''"]
        by simp
      ultimately show ?thesis using v by simp
    qed
    with r v p show ?thesis by auto
  qed
  from first second show ?thesis by blast
qed

theorem volumes_config_mount_then_first_seen_witness:
  "cs_volumes (fst (build_prometheus_service None
      [ca_mount_line ''ca-bundle'' ''ca.crt'', ca_mount_line ''other'' ''ca.crt'',
       ca_mount_line ''ca-bundle'' ''ca.crt''] ex_ctx))
     = [scrape_config_mount, ca_mount_line ''ca-bundle'' ''ca.crt'',
        ca_mount_line ''other'' ''ca.crt'']
   \<and> (\<exists>svc. fst (process_servicemonitors glob_eq None [ex_ca_monitor] ex_ctx)
               = [(''prometheus'', svc)]
          \<and> count_list (cs_volumes svc)
               (ca_mount_line ''ca-bundle'' ''ca-certificates.crt'') = 1)
   \<and> length (endpoints ex_ca_monitor) = 2"
proof -
  have j: "fst (process_monitors glob_eq (config_exclude ex_ctx) [ex_ca_monitor] ([], [], ex_ctx))
             \<noteq> []"
    by (simp add: ex_ca_endpoint_def ex_ca_monitor_def example_defs model_defs)
  have h: "ex_ca_monitor \<in> set [ex_ca_monitor] \<and> match_labels ex_ca_monitor \<noteq> []
      \<and> resolved_name (get_or (meta_name ex_ca_monitor) ''?'') (match_labels ex_ca_monitor) ex_ctx
          = Some ''api''
      \<and> \<not> is_excluded glob_eq ''api'' (config_exclude ex_ctx)
      \<and> ex_ca_endpoint \<in> set (endpoints ex_ca_monitor)
      \<and> get_or (ep_scheme ex_ca_endpoint) ''http'' = ''https''
      \<and> ep_ca_name ex_ca_endpoint = Some ''ca-bundle'' \<and> ''ca-bundle'' \<noteq> []
      \<and> ''ca-bundle'' \<in> configmaps ex_ctx
      \<and> resolve_port ex_ca_endpoint (find_service (match_labels ex_ca_monitor) ex_ctx) \<noteq> None"
    by (simp add: resolved_name_def ex_ca_endpoint_def ex_ca_monitor_def example_defs model_defs)
  have k: "get_or (ep_ca_key ex_ca_endpoint) ''ca-certificates.crt'' = ''ca-certificates.crt''"
    by (simp add: ex_ca_endpoint_def get_or_def)
  note t = volumes_config_mount_then_first_seen
    [of None "[ca_mount_line ''ca-bundle'' ''ca.crt'', ca_mount_line ''other'' ''ca.crt'',
       ca_mount_line ''ca-bundle'' ''ca.crt'']" ex_ctx glob_eq ex_ctx "[ex_ca_monitor]"
       ex_ca_monitor "''api''" ex_ca_endpoint "''ca-bundle''"]
  from t have a: "cs_volumes (fst (build_prometheus_service None
      [ca_mount_line ''ca-bundle'' ''ca.crt'', ca_mount_line ''other'' ''ca.crt'',
       ca_mount_line ''ca-bundle'' ''ca.crt''] ex_ctx))
     = [scrape_config_mount, ca_mount_line ''ca-bundle'' ''ca.crt'',
        ca_mount_line ''other'' ''ca.crt'']"
    by (simp add: ca_mount_line_def ca_container_path_def)
  from t j h k have b: "\<exists>svc. fst (process_servicemonitors glob_eq None [ex_ca_monitor] ex_ctx)
               = [(''prometheus'', svc)]
          \<and> count_list (cs_volumes svc)
               (ca_mount_line ''ca-bundle'' ''ca-certificates.crt'') = 1"
    by auto
  from a b show ?thesis by (simp add: ex_ca_monitor_def)
qed

end
